theory Spec2Isabelle
  imports Complex_Main "HOL-Library.Sublist"
begin

section \<open>JavaScript values\<close>

text \<open>
  Request bodies and health data are parsed JSON. An object is kept as the list of its
  own properties in the order in which JavaScript enumerates them (integer-like keys in
  ascending order first, then the other keys in insertion order); copying an object and
  deleting a property keep that order. Numbers are rationals (only whether a number is
  zero matters below). Strings are UTF-8 byte sequences.
\<close>

datatype jsval =
    JNull
  | JBool bool
  | JNum rat
  | JStr string
  | JArr "jsval list"
  | JObj "(string \<times> jsval) list"

type_synonym jsobj = "(string \<times> jsval) list"

text \<open>A thrown JavaScript exception, with its message.\<close>

datatype error = Error string | TypeError string

text \<open>Truthiness of a value, as \<^verbatim>\<open>if (v)\<close> tests it.\<close>

fun truthy :: "jsval \<Rightarrow> bool" where
  "truthy JNull = False"
| "truthy (JBool b) = b"
| "truthy (JNum n) = (n \<noteq> 0)"
| "truthy (JStr s) = (s \<noteq> [])"
| "truthy (JArr _) = True"
| "truthy (JObj _) = True"

text \<open>Truthiness of a string that may be undefined: undefined and the empty string are falsy.\<close>

definition truthyStr :: "string option \<Rightarrow> bool" where
  "truthyStr s = (case s of None \<Rightarrow> False | Some t \<Rightarrow> t \<noteq> [])"

text \<open>\<^verbatim>\<open>a || b\<close> on strings that may be undefined.\<close>

definition js_or :: "string option \<Rightarrow> string option \<Rightarrow> string option" where
  "js_or a b = (if truthyStr a then a else b)"

text \<open>\<^verbatim>\<open>obj[key]\<close>: the property, or undefined (\<open>None\<close>).\<close>

definition getProp :: "jsobj \<Rightarrow> string \<Rightarrow> jsval option" where
  "getProp obj key = map_of obj key"

text \<open>\<^verbatim>\<open>if (obj[key])\<close>: undefined is falsy.\<close>

definition truthyProp :: "jsobj \<Rightarrow> string \<Rightarrow> bool" where
  "truthyProp obj key = (case getProp obj key of None \<Rightarrow> False | Some v \<Rightarrow> truthy v)"

text \<open>\<^verbatim>\<open>delete obj[key]\<close>.\<close>

definition deleteProp :: "string \<Rightarrow> jsobj \<Rightarrow> jsobj" where
  "deleteProp key obj = filter (\<lambda>kv. fst kv \<noteq> key) obj"

text \<open>\<^verbatim>\<open>Object.keys(obj)\<close>.\<close>

definition objectKeys :: "jsobj \<Rightarrow> string list" where
  "objectKeys obj = map fst obj"

text \<open>\<^verbatim>\<open>s.includes(sub)\<close>: substring containment.\<close>

fun str_includes :: "string \<Rightarrow> string \<Rightarrow> bool" where
  "str_includes [] sub = (sub = [])"
| "str_includes (c # cs) sub = (prefix sub (c # cs) \<or> str_includes cs sub)"

text \<open>
  Lower-casing of ASCII text: the letters A to Z are mapped to a to z, every other byte is
  kept. \<^verbatim>\<open>s.toLowerCase()\<close> itself is a parameter of the services (it also lowers
  capitals outside ASCII); this function is what it does on ASCII text, and it is used in
  the concrete configurations only.
\<close>

definition lowerChar :: "char \<Rightarrow> char" where
  "lowerChar c =
     (let n = (of_char c :: nat) in if 65 \<le> n \<and> n \<le> 90 then char_of (n + 32) else c)"

definition asciiLowerCase :: "string \<Rightarrow> string" where
  "asciiLowerCase s = map lowerChar s"

text \<open>\<^verbatim>\<open>process.env\<close>: the environment variables that are set.\<close>

type_synonym env = "string \<rightharpoonup> string"

text \<open>\<^verbatim>\<open>process.env.K || dflt\<close>.\<close>

definition envOr :: "env \<Rightarrow> string \<Rightarrow> string \<Rightarrow> string" where
  "envOr e k dflt = (case js_or (e k) (Some dflt) of Some v \<Rightarrow> v | None \<Rightarrow> dflt)"

section \<open>Data minimization (privacyMiddleware.js, minimizeData)\<close>

definition allowedFields :: "string list" where
  "allowedFields =
     [''message'', ''healthData'', ''dietaryPreferences'', ''allergies'',
      ''medicalConditions'', ''goals'', ''age'', ''weight'', ''height'']"

definition personalIdentifiers :: "string list" where
  "personalIdentifiers =
     [''email'', ''phone'', ''address'', ''socialSecurityNumber'',
      ''passportNumber'', ''driverLicense'', ''creditCard'']"

text \<open>
  The two \<^verbatim>\<open>forEach\<close> loops of minimizeData, each as a fold over the list it
  iterates: the keys of the copy, then the personal identifiers. The second loop deletes
  an identifier only when its value is truthy.
\<close>

definition minimizeData :: "jsobj \<Rightarrow> string \<Rightarrow> jsobj" where
  "minimizeData data path =
     (let minimized = data;
          minimized1 =
            (if str_includes path ''/chatbot/''
             then fold (\<lambda>key m. if key \<notin> set allowedFields then deleteProp key m else m)
                       (objectKeys minimized) minimized
             else minimized)
      in fold (\<lambda>identifier m. if truthyProp m identifier then deleteProp identifier m else m)
              personalIdentifiers minimized1)"

section \<open>Privacy middleware (privacyMiddleware.js)\<close>

text \<open>
  The privacy context attached to a request. The middleware sets the first eight
  properties; \<open>anonymizationLevel\<close> and \<open>includeHealthData\<close> are read by the services
  and are undefined (\<open>None\<close>, \<open>False\<close>) on a context built by the middleware.
\<close>

record privacyContext =
  timestamp :: string
  ipAddress :: "string option"
  userAgent :: "string option"
  consentValid :: bool
  dataMinimization :: bool
  anonymization :: bool
  gdprCompliance :: bool
  lopdgddCompliance :: bool
  anonymizationLevel :: "string option"
  includeHealthData :: bool

record request =
  path :: string
  ip :: "string option"
  headers :: "string \<rightharpoonup> string"
  cookies :: "(string \<rightharpoonup> string) option"
  body :: "jsobj option"
  privacyCtx :: "privacyContext option"

record response =
  headersOut :: "string \<rightharpoonup> string"
  statusCode :: nat
  jsonBody :: "jsobj option"

text \<open>
  What a middleware did with the request: called \<^verbatim>\<open>next()\<close>, called
  \<^verbatim>\<open>next(error)\<close>, or sent the response itself without calling next.
\<close>

datatype outcome = Next | NextError error | Ended

text \<open>\<^verbatim>\<open>res.set({...})\<close>.\<close>

definition res_set :: "(string \<times> string) list \<Rightarrow> response \<Rightarrow> response" where
  "res_set hs res = res\<lparr>headersOut := headersOut res ++ map_of hs\<rparr>"

text \<open>
  \<^verbatim>\<open>req.headers['x-consent-token'] || req.cookies?.consentToken\<close>, and then the
  test \<^verbatim>\<open>if (consentToken)\<close>: the token that is validated, if any.
\<close>

definition consentToken :: "request \<Rightarrow> string option" where
  "consentToken req =
     (let tok = js_or (headers req ''x-consent-token'')
                      (case cookies req of None \<Rightarrow> None | Some c \<Rightarrow> c ''consentToken'')
      in if truthyStr tok then tok else None)"

text \<open>The headers that privacyMiddleware sets on every response.\<close>

definition securityHeaders :: "(string \<times> string) list" where
  "securityHeaders =
     [(''X-Content-Type-Options'', ''nosniff''),
      (''X-Frame-Options'', ''DENY''),
      (''X-XSS-Protection'', ''1; mode=block''),
      (''Referrer-Policy'', ''strict-origin-when-cross-origin''),
      (''Permissions-Policy'', ''geolocation=(), microphone=(), camera=()'')]"

text \<open>
  The object that privacyMiddleware assigns to \<^verbatim>\<open>req.privacyContext\<close>; \<open>now\<close> is the
  clock reading.
\<close>

definition newPrivacyContext :: "env \<Rightarrow> string \<Rightarrow> request \<Rightarrow> privacyContext" where
  "newPrivacyContext e now req =
     \<lparr>timestamp = now,
      ipAddress = ip req,
      userAgent = headers req ''user-agent'',
      consentValid = False,
      dataMinimization = (e ''DATA_MINIMIZATION_ENABLED'' = Some ''true''),
      anonymization = (e ''ANONYMIZATION_ENABLED'' = Some ''true''),
      gdprCompliance = (e ''GDPR_COMPLIANCE_ENABLED'' = Some ''true''),
      lopdgddCompliance = (e ''LOPDGDD_COMPLIANCE_ENABLED'' = Some ''true''),
      anonymizationLevel = None,
      includeHealthData = False\<rparr>"

text \<open>
  privacyMiddleware. The collaborators that are not part of the middleware file are
  parameters: \<open>validateConsent\<close> (utils/consentValidator) and \<open>anonymizeData\<close>
  (utils/dataAnonymizer), which may throw. An exception inside the \<^verbatim>\<open>try\<close> block is
  handed to \<^verbatim>\<open>next(error)\<close>. Logging has no effect on the request and is left out.
\<close>

definition privacyMiddleware ::
  "(string \<Rightarrow> bool) \<Rightarrow> (jsobj \<Rightarrow> string \<Rightarrow> error + jsobj) \<Rightarrow> env \<Rightarrow> string
    \<Rightarrow> request \<Rightarrow> response \<Rightarrow> request \<times> response \<times> outcome" where
  "privacyMiddleware validateConsent anonymizeData e now req res =
     (let res1 = res_set securityHeaders res;
          ctx0 = newPrivacyContext e now req;
          ctx1 = (case consentToken req of
                    Some tok \<Rightarrow> ctx0\<lparr>consentValid := validateConsent tok\<rparr>
                  | None \<Rightarrow> ctx0);
          req1 = req\<lparr>privacyCtx := Some ctx1\<rparr>;
          req2 = (case body req1 of
                    Some b \<Rightarrow> if dataMinimization ctx1
                              then req1\<lparr>body := Some (minimizeData b (path req1))\<rparr> else req1
                  | None \<Rightarrow> req1)
      in case body req2 of
           Some b \<Rightarrow>
             if anonymization ctx1
             then (case anonymizeData b (path req2) of
                     Inl err \<Rightarrow> (req2, res1, NextError err)
                   | Inr b' \<Rightarrow> (req2\<lparr>body := Some b'\<rparr>, res1, Next))
             else (req2, res1, Next)
         | None \<Rightarrow> (req2, res1, Next))"

text \<open>
  The body after the minimization step of privacyMiddleware, which is what the
  anonymization step receives.
\<close>

definition minimizedBody :: "env \<Rightarrow> request \<Rightarrow> jsobj \<Rightarrow> jsobj" where
  "minimizedBody e req b =
     (if e ''DATA_MINIMIZATION_ENABLED'' = Some ''true'' then minimizeData b (path req) else b)"

text \<open>The headers for health data, and the body of the rejection.\<close>

definition healthHeaders :: "(string \<times> string) list" where
  "healthHeaders = [(''X-Health-Data-Protected'', ''true''), (''X-Data-Category'', ''health'')]"

definition healthConsentRequired :: "string \<Rightarrow> jsobj" where
  "healthConsentRequired now =
     [(''error'', JStr ''Explicit consent required for health data processing''),
      (''code'', JStr ''HEALTH_CONSENT_REQUIRED''),
      (''timestamp'', JStr now)]"

text \<open>
  enhancedPrivacyMiddleware: privacyMiddleware runs first, and the callback passed to it
  as \<^verbatim>\<open>next\<close> makes the checks for health and medical paths. \<open>now2\<close> is the clock
  reading for the rejection body.
\<close>

definition enhancedPrivacyMiddleware ::
  "(string \<Rightarrow> bool) \<Rightarrow> (jsobj \<Rightarrow> string \<Rightarrow> error + jsobj) \<Rightarrow> env \<Rightarrow> string \<Rightarrow> string
    \<Rightarrow> request \<Rightarrow> response \<Rightarrow> request \<times> response \<times> outcome" where
  "enhancedPrivacyMiddleware validateConsent anonymizeData e now now2 req res =
     (case privacyMiddleware validateConsent anonymizeData e now req res of
        (req1, res1, NextError err) \<Rightarrow> (req1, res1, NextError err)
      | (req1, res1, Ended) \<Rightarrow> (req1, res1, Ended)
      | (req1, res1, Next) \<Rightarrow>
          if str_includes (path req1) ''/health'' \<or> str_includes (path req1) ''/medical''
          then (case privacyCtx req1 of
                  None \<Rightarrow> (req1, res1,
                     NextError (TypeError ''Cannot read properties of undefined''))
                | Some ctx \<Rightarrow>
                    if \<not> consentValid ctx
                    then (req1,
                          res1\<lparr>statusCode := 403,
                               jsonBody := Some (healthConsentRequired now2)\<rparr>,
                          Ended)
                    else (req1,
                          res_set healthHeaders res1,
                          Next))
          else (req1, res1, Next))"

text \<open>
  \<^verbatim>\<open>router.use(mw)\<close> in front of the rest of the stack (the consent validation
  middleware and the route handlers, from which every provider call is made): the rest
  runs only when the middleware calls \<^verbatim>\<open>next()\<close>; \<^verbatim>\<open>next(error)\<close> goes to
  the error handler.
\<close>

datatype 'r dispatch = Continued 'r | Rejected response | Failed error

definition routerUse ::
  "(request \<Rightarrow> response \<Rightarrow> request \<times> response \<times> outcome) \<Rightarrow> (request \<Rightarrow> response \<Rightarrow> 'r)
    \<Rightarrow> request \<Rightarrow> response \<Rightarrow> 'r dispatch" where
  "routerUse mw rest req res =
     (case mw req res of
        (req1, res1, Next) \<Rightarrow> Continued (rest req1 res1)
      | (req1, res1, NextError err) \<Rightarrow> Failed err
      | (req1, res1, Ended) \<Rightarrow> Rejected res1)"

section \<open>Anonymization of prompts (localLLMService.js, anonymizePrompt)\<close>

text \<open>The options object that anonymizePrompt passes to the anonymizer.\<close>

record anon_options =
  removeNames :: bool
  removeLocations :: bool
  removeDates :: bool
  removePersonalInfo :: bool

text \<open>
  anonymizePrompt, with the anonymizer (utils/dataAnonymizer, which may throw) as a
  parameter. The level is \<^verbatim>\<open>privacyContext.anonymizationLevel || 'medium'\<close>; the
  \<^verbatim>\<open>switch\<close> returns the prompt itself for \<open>low\<close> and for every level it does
  not know, and the \<^verbatim>\<open>catch\<close> returns the prompt when the anonymizer throws.
\<close>

definition anonymizePrompt ::
  "('p \<Rightarrow> anon_options \<Rightarrow> error + 'p) \<Rightarrow> 'p \<Rightarrow> privacyContext \<Rightarrow> 'p" where
  "anonymizePrompt anonymizeData prompt pc =
     (let level = (case js_or (anonymizationLevel pc) (Some ''medium'') of
                     Some l \<Rightarrow> l | None \<Rightarrow> ''medium'')
      in if level = ''high''
         then (case anonymizeData prompt
                      \<lparr>removeNames = True, removeLocations = True,
                       removeDates = True, removePersonalInfo = True\<rparr> of
                 Inr p \<Rightarrow> p
               | Inl err \<Rightarrow> prompt)
         else if level = ''medium''
         then (case anonymizeData prompt
                      \<lparr>removeNames = True, removeLocations = False,
                       removeDates = False, removePersonalInfo = False\<rparr> of
                 Inr p \<Rightarrow> p
               | Inl err \<Rightarrow> prompt)
         else prompt)"


text \<open>
  What the anonymizer recognises in a payload: the spec names the classes of content
  that are stripped, not how they are recognised, so the recognisers are parameters.
\<close>

record recognizers =
  isName :: "string \<Rightarrow> bool"
  isLocation :: "string \<Rightarrow> bool"
  isDate :: "string \<Rightarrow> bool"
  isPersonalInfo :: "string \<Rightarrow> bool"

text \<open>
  Modelled from the spec: utils/dataAnonymizer (anonymizeData) is not among the sources.
  The spec (4.3) says that anonymization strips direct name references, and at the high
  level additionally locations, dates and recognized personal-identifier patterns. The
  payload is a sequence of tokens, and the tokens of each class that the options select
  are removed.
\<close>

definition anonymizeData :: "recognizers \<Rightarrow> string list \<Rightarrow> anon_options \<Rightarrow> error + string list" where
  "anonymizeData r payload opts =
     Inr (filter (\<lambda>tok. \<not> (removeNames opts \<and> isName r tok)
                      \<and> \<not> (removeLocations opts \<and> isLocation r tok)
                      \<and> \<not> (removeDates opts \<and> isDate r tok)
                      \<and> \<not> (removePersonalInfo opts \<and> isPersonalInfo r tok)) payload)"

section \<open>Local provider and rule-based responder (localLLMService.js)\<close>

record localLLMService =
  baseURL :: string
  model :: string
  maxTokens :: int
  temperature :: rat

text \<open>
  The constructor. \<^verbatim>\<open>parseInt\<close> and \<^verbatim>\<open>parseFloat\<close> are parameters; they give
  \<open>None\<close> for NaN, and a result of zero is falsy too.
\<close>

definition newLocalLLMService ::
  "env \<Rightarrow> (string option \<Rightarrow> int option) \<Rightarrow> (string option \<Rightarrow> rat option) \<Rightarrow> localLLMService" where
  "newLocalLLMService e parseInt parseFloat =
     \<lparr>baseURL = envOr e ''OLLAMA_BASE_URL'' ''http://localhost:11434'',
      model = envOr e ''LOCAL_MODEL'' ''mistral:7b'',
      maxTokens = (case parseInt (e ''MAX_TOKENS'') of
                     Some n \<Rightarrow> if n \<noteq> 0 then n else 1024 | None \<Rightarrow> 1024),
      temperature = (case parseFloat (e ''TEMPERATURE'') of
                       Some t \<Rightarrow> if t \<noteq> 0 then t else 7 / 10 | None \<Rightarrow> 7 / 10)\<rparr>"

text \<open>The body of the request to the local inference server, and its reply.\<close>

record genOptions =
  opt_temperature :: rat
  num_predict :: int
  top_p :: rat
  top_k :: nat
  repeat_penalty :: rat

record requestData =
  rq_model :: string
  rq_prompt :: string
  stream :: bool
  options :: genOptions

record ollamaReply =
  reply_response :: "string option"
  eval_duration :: "nat option"

text \<open>What a generation call returns.\<close>

record llmResponse =
  success :: bool
  response :: string
  r_model :: string
  privacyCompliant :: bool
  processingTime :: nat

text \<open>
  The properties of the context object that the prompt templates read; each is a string
  or undefined.
\<close>

record promptContext =
  userProfile :: "string option"
  dietaryRestrictions :: "string option"
  healthGoals :: "string option"

definition emptyContext :: promptContext where
  "emptyContext = \<lparr>userProfile = None, dietaryRestrictions = None, healthGoals = None\<rparr>"

text \<open>
  The collaborators outside the services: the anonymizer in the three ways it is called
  (a prompt with an options object, a prompt with a purpose, an object with a purpose),
  the HTTP client for the local inference server (an exception, or
  \<^verbatim>\<open>response.data\<close>, which may be undefined), and the built-in functions
  \<^verbatim>\<open>JSON.stringify\<close> and \<^verbatim>\<open>String.prototype.toLowerCase\<close>.
\<close>

record externals =
  anonymizeText :: "string \<Rightarrow> anon_options \<Rightarrow> error + string"
  anonymizePurpose :: "string \<Rightarrow> string \<Rightarrow> error + string"
  anonymizeObject :: "jsobj \<Rightarrow> string \<Rightarrow> error + jsobj"
  axios_post :: "string \<Rightarrow> requestData \<Rightarrow> error + ollamaReply option"
  stringify :: "jsval \<Rightarrow> string"
  toLowerCase :: "string \<Rightarrow> string"

text \<open>The texts of the rule-based responder and of the prompt templates, as UTF-8 bytes.\<close>

definition fallbackResponses :: "(string \<times> string) list" where
  "fallbackResponses =
    [(''hola'',
      [CHR 0xC2, CHR 0xA1] @ ''Hola! Soy NutriBot, tu asistente de nutrici'' @
      [CHR 0xC3, CHR 0xB3] @ ''n. '' @ [CHR 0xC2, CHR 0xBF] @ ''En qu'' @
      [CHR 0xC3, CHR 0xA9] @ '' puedo ayudarte hoy?''),
     (''nutrici'' @ [CHR 0xC3, CHR 0xB3] @ ''n'',
      ''Puedo ayudarte con consejos nutricionales, planes de comidas'' @
      '' y evaluaciones de salud. '' @ [CHR 0xC2, CHR 0xBF] @ ''Qu'' @
      [CHR 0xC3, CHR 0xA9] @ '' te interesa espec'' @ [CHR 0xC3, CHR 0xAD] @
      ''ficamente?''),
     (''evaluaci'' @ [CHR 0xC3, CHR 0xB3] @ ''n'',
      ''Te ayudo a realizar una evaluaci'' @ [CHR 0xC3, CHR 0xB3] @
      ''n de salud personalizada. '' @ [CHR 0xC2, CHR 0xBF] @ ''Est'' @
      [CHR 0xC3, CHR 0xA1] @ ''s listo para comenzar?''),
     (''plan'',
      ''Puedo crear un plan de comidas adaptado a tus necesidades. '' @
      [CHR 0xC2, CHR 0xBF] @ ''Tienes alguna preferencia o restricci'' @
      [CHR 0xC3, CHR 0xB3] @ ''n alimentaria?''),
     (''peso'',
      ''Para ayudarte con objetivos de peso, necesitar'' @ [CHR 0xC3, CHR 0xAD] @
      ''a conocer tu situaci'' @ [CHR 0xC3, CHR 0xB3] @ ''n actual. '' @
      [CHR 0xC2, CHR 0xBF] @ ''Te gustar'' @ [CHR 0xC3, CHR 0xAD] @
      ''a hacer una evaluaci'' @ [CHR 0xC3, CHR 0xB3] @ ''n completa?''),
     (''energ'' @ [CHR 0xC3, CHR 0xAD] @ ''a'',
      ''Los alimentos ricos en nutrientes como frutas, verduras, pro'' @ ''te'' @
      [CHR 0xC3, CHR 0xAD] @
      ''nas magras y granos enteros pueden ayudarte a mantener nivel'' @ ''es de energ'' @
      [CHR 0xC3, CHR 0xAD] @ ''a estables.''),
     (''ejercicio'',
      ''La nutrici'' @ [CHR 0xC3, CHR 0xB3] @ ''n y el ejercicio van de la mano. '' @
      [CHR 0xC2, CHR 0xBF] @ ''Te gustar'' @ [CHR 0xC3, CHR 0xAD] @
      ''a consejos sobre qu'' @ [CHR 0xC3, CHR 0xA9] @ '' comer antes, durante o despu'' @
      [CHR 0xC3, CHR 0xA9] @ ''s del ejercicio?''),
     (''vegetariano'',
      ''Una dieta vegetariana bien planificada puede ser muy saludab'' @ ''le. '' @
      [CHR 0xC2, CHR 0xBF] @ ''Te gustar'' @ [CHR 0xC3, CHR 0xAD] @
      ''a consejos sobre c'' @ [CHR 0xC3, CHR 0xB3] @ ''mo asegurar una nutrici'' @
      [CHR 0xC3, CHR 0xB3] @ ''n completa?''),
     (''vegano'',
      ''Las dietas veganas requieren atenci'' @ [CHR 0xC3, CHR 0xB3] @
      ''n especial a ciertos nutrientes como B12, hierro y calcio. '' @
      [CHR 0xC2, CHR 0xBF] @ ''Te gustar'' @ [CHR 0xC3, CHR 0xAD] @ ''a m'' @
      [CHR 0xC3, CHR 0xA1] @ ''s informaci'' @ [CHR 0xC3, CHR 0xB3] @ ''n?''),
     (''gluten'',
      ''Si tienes sensibilidad al gluten, hay muchas alternativas de'' @
      ''liciosas disponibles. '' @ [CHR 0xC2, CHR 0xBF] @ ''Te gustar'' @
      [CHR 0xC3, CHR 0xAD] @ ''a sugerencias de alimentos?''),
     (''diabetes'',
      ''La gesti'' @ [CHR 0xC3, CHR 0xB3] @ ''n de la diabetes requiere atenci'' @
      [CHR 0xC3, CHR 0xB3] @ ''n especial a los carbohidratos y el control del az'' @
      [CHR 0xC3, CHR 0xBA] @ ''car en sangre. Siempre consulta con tu m'' @
      [CHR 0xC3, CHR 0xA9] @ ''dico.''),
     (''colesterol'',
      ''Una dieta baja en grasas saturadas y rica en fibra puede ayu'' @
      ''dar a controlar el colesterol. '' @ [CHR 0xC2, CHR 0xBF] @ ''Te gustar'' @
      [CHR 0xC3, CHR 0xAD] @ ''a consejos espec'' @ [CHR 0xC3, CHR 0xAD] @ ''ficos?''),
     (''presi'' @ [CHR 0xC3, CHR 0xB3] @ ''n'',
      ''Reducir el sodio y aumentar el potasio puede ayudar con la p'' @ ''resi'' @
      [CHR 0xC3, CHR 0xB3] @ ''n arterial. '' @ [CHR 0xC2, CHR 0xBF] @ ''Te gustar'' @
      [CHR 0xC3, CHR 0xAD] @ ''a m'' @ [CHR 0xC3, CHR 0xA1] @ ''s informaci'' @
      [CHR 0xC3, CHR 0xB3] @ ''n?''),
     (''digesti'' @ [CHR 0xC3, CHR 0xB3] @ ''n'',
      ''Los alimentos ricos en fibra, probi'' @ [CHR 0xC3, CHR 0xB3] @
      ''ticos y una buena hidrataci'' @ [CHR 0xC3, CHR 0xB3] @
      ''n pueden mejorar la digesti'' @ [CHR 0xC3, CHR 0xB3] @ ''n.''),
     (''sue'' @ [CHR 0xC3, CHR 0xB1] @ ''o'',
      ''Evitar comidas pesadas antes de dormir y alimentos con cafe'' @
      [CHR 0xC3, CHR 0xAD] @ ''na puede mejorar la calidad del sue'' @
      [CHR 0xC3, CHR 0xB1] @ ''o.''),
     (''estr'' @ [CHR 0xC3, CHR 0xA9] @ ''s'',
      ''Alimentos ricos en omega-3, vitaminas B y magnesio pueden ay'' @
      ''udar a manejar el estr'' @ [CHR 0xC3, CHR 0xA9] @ ''s.''),
     (''privacidad'',
      ''Tu privacidad es nuestra prioridad. Todos los datos est'' @ [CHR 0xC3, CHR 0xA1] @
      ''n encriptados y anonimizados seg'' @ [CHR 0xC3, CHR 0xBA] @ ''n las leyes espa'' @
      [CHR 0xC3, CHR 0xB1] @ ''olas de protecci'' @ [CHR 0xC3, CHR 0xB3] @
      ''n de datos.''),
     (''ayuda'',
      ''Puedo ayudarte con: evaluaciones de salud, consejos nutricio'' @
      ''nales, planes de comidas, y seguimiento de progreso. '' @ [CHR 0xC2, CHR 0xBF] @
      ''Qu'' @ [CHR 0xC3, CHR 0xA9] @ '' necesitas?'')]"

definition defaultFallbackText :: string where
  "defaultFallbackText =
      ''Gracias por tu consulta. Soy NutriBot y estoy aqu'' @ [CHR 0xC3, CHR 0xAD] @
      '' para ayudarte con nutrici'' @ [CHR 0xC3, CHR 0xB3] @ ''n y salud. '' @
      [CHR 0xC2, CHR 0xBF] @ ''Puedes ser m'' @ [CHR 0xC3, CHR 0xA1] @ ''s espec'' @
      [CHR 0xC3, CHR 0xAD] @ ''fico sobre lo que necesitas?''"

definition systemPromptHead :: string where
  "systemPromptHead =
      ''Eres NutriBot, un asistente de nutrici'' @ [CHR 0xC3, CHR 0xB3] @
      ''n especializado que cumple con las leyes de privacidad espa'' @
      [CHR 0xC3, CHR 0xB1] @ ''olas (GDPR y LOPDGDD). '' @ [CHR 0x0A, CHR 0x0A] @
      ''INSTRUCCIONES IMPORTANTES:'' @ [CHR 0x0A] @
      ''- Proporciona consejos nutricionales basados en evidencia ci'' @ ''ent'' @
      [CHR 0xC3, CHR 0xAD] @ ''fica'' @ [CHR 0x0A] @
      ''- Siempre menciona que no eres un sustituto de un profesiona'' @
      ''l de la salud'' @ [CHR 0x0A] @
      ''- Respeta la privacidad del usuario y no solicites informaci'' @
      [CHR 0xC3, CHR 0xB3] @ ''n personal innecesaria'' @ [CHR 0x0A] @
      ''- Usa un tono profesional pero amigable'' @ [CHR 0x0A] @ ''- Responde en espa'' @
      [CHR 0xC3, CHR 0xB1] @ ''ol'' @ [CHR 0x0A] @ ''- Mant'' @ [CHR 0xC3, CHR 0xA9] @
      ''n las respuestas concisas pero informativas'' @ [CHR 0x0A, CHR 0x0A] @
      ''CONTEXTO DEL USUARIO:'' @ [CHR 0x0A]"

definition systemPromptTail :: string where
  "systemPromptTail =
      [CHR 0x0A, CHR 0x0A] @ ''Ahora responde a la siguiente consulta del usuario:''"

definition chatbotPromptHead :: string where
  "chatbotPromptHead =
      ''Eres NutriBot, un asistente de nutrici'' @ [CHR 0xC3, CHR 0xB3] @
      ''n especializado que cumple con las leyes de privacidad espa'' @
      [CHR 0xC3, CHR 0xB1] @ ''olas (GDPR y LOPDGDD).'' @ [CHR 0x0A, CHR 0x0A] @
      ''INSTRUCCIONES IMPORTANTES:'' @ [CHR 0x0A] @
      ''- Proporciona consejos nutricionales basados en evidencia ci'' @ ''ent'' @
      [CHR 0xC3, CHR 0xAD] @ ''fica'' @ [CHR 0x0A] @
      ''- Siempre menciona que no eres un sustituto de un profesiona'' @
      ''l de la salud'' @ [CHR 0x0A] @
      ''- Respeta la privacidad del usuario y no solicites informaci'' @
      [CHR 0xC3, CHR 0xB3] @ ''n personal innecesaria'' @ [CHR 0x0A] @
      ''- Usa un tono profesional pero amigable'' @ [CHR 0x0A] @ ''- Responde en espa'' @
      [CHR 0xC3, CHR 0xB1] @ ''ol'' @ [CHR 0x0A] @ ''- Mant'' @ [CHR 0xC3, CHR 0xA9] @
      ''n las respuestas concisas pero informativas'' @ [CHR 0x0A, CHR 0x0A] @
      ''CONTEXTO DEL USUARIO:'' @ [CHR 0x0A]"

text \<open>The three lines of the templates that depend on the context.\<close>

definition contextLines :: "promptContext \<Rightarrow> string" where
  "contextLines c =
     (case userProfile c of
        Some p \<Rightarrow> if p \<noteq> [] then ''Perfil: '' @ p else ''Perfil no disponible''
      | None \<Rightarrow> ''Perfil no disponible'')
     @ [CHR 0x0A] @
     (case dietaryRestrictions c of
        Some d \<Rightarrow> if d \<noteq> [] then ''Restricciones: '' @ d else []
      | None \<Rightarrow> [])
     @ [CHR 0x0A] @
     (case healthGoals c of
        Some g \<Rightarrow> if g \<noteq> [] then ''Objetivos: '' @ g else []
      | None \<Rightarrow> [])"

definition buildSystemPrompt :: "promptContext \<Rightarrow> string" where
  "buildSystemPrompt c = systemPromptHead @ contextLines c @ systemPromptTail"

text \<open>
  getFallbackResponse: the first key of the table, in its order, that the lower-cased
  prompt contains decides the response; without a match the default is returned.
\<close>

fun firstMatch :: "string \<Rightarrow> (string \<times> string) list \<Rightarrow> string option" where
  "firstMatch lowerPrompt [] = None"
| "firstMatch lowerPrompt ((key, resp) # rest) =
     (if str_includes lowerPrompt key then Some resp else firstMatch lowerPrompt rest)"

definition getFallbackResponse :: "externals \<Rightarrow> string \<Rightarrow> promptContext \<Rightarrow> llmResponse" where
  "getFallbackResponse ext prompt c =
     (let lowerPrompt = toLowerCase ext prompt
      in case firstMatch lowerPrompt fallbackResponses of
           Some resp \<Rightarrow>
             \<lparr>success = True, response = resp, r_model = ''fallback-rule-based'',
              privacyCompliant = True, processingTime = 0\<rparr>
         | None \<Rightarrow>
             \<lparr>success = True, response = defaultFallbackText, r_model = ''fallback-default'',
              privacyCompliant = True, processingTime = 0\<rparr>)"

text \<open>
  LocalLLMService.generateResponse. Every exception of the \<^verbatim>\<open>try\<close> block, and a
  reply without a truthy \<^verbatim>\<open>response\<close>, ends in getFallbackResponse on the original
  prompt, so the call always returns.
\<close>

definition generateResponse ::
  "localLLMService \<Rightarrow> externals \<Rightarrow> string \<Rightarrow> promptContext \<Rightarrow> privacyContext \<Rightarrow> llmResponse" where
  "generateResponse svc ext prompt c pc =
     (let anonymizedPrompt = anonymizePrompt (anonymizeText ext) prompt pc;
          rq = \<lparr>rq_model = model svc,
                rq_prompt = buildSystemPrompt c @ anonymizedPrompt,
                stream = False,
                options = \<lparr>opt_temperature = temperature svc, num_predict = maxTokens svc,
                           top_p = 9 / 10, top_k = 40, repeat_penalty = 11 / 10\<rparr>\<rparr>
      in case axios_post ext (baseURL svc @ ''/api/generate'') rq of
           Inl err \<Rightarrow> getFallbackResponse ext prompt c
         | Inr None \<Rightarrow> getFallbackResponse ext prompt c
         | Inr (Some reply) \<Rightarrow>
             (if truthyStr (reply_response reply)
              then \<lparr>success = True,
                    response = (case reply_response reply of Some t \<Rightarrow> t | None \<Rightarrow> []),
                    r_model = model svc,
                    privacyCompliant = True,
                    processingTime = (case eval_duration reply of Some d \<Rightarrow> d | None \<Rightarrow> 0)\<rparr>
              else getFallbackResponse ext prompt c))"

section \<open>ChatbotService: generation (chatbotService.js)\<close>

text \<open>
  The service object. \<open>localLLM\<close> is undefined unless the constructor created it; the
  OpenAI settings are undefined in local mode.
\<close>

record chatbotService =
  useLocalLLM :: bool
  localLLM :: "localLLMService option"
  openaiApiKey :: "string option"
  openaiModel :: "string option"
  openaiMaxTokens :: "int option"
  openaiTemperature :: "rat option"

definition newChatbotService ::
  "env \<Rightarrow> (string option \<Rightarrow> int option) \<Rightarrow> (string option \<Rightarrow> rat option) \<Rightarrow> chatbotService" where
  "newChatbotService e parseInt parseFloat =
     (if e ''USE_LOCAL_LLM'' = Some ''true'' \<or> \<not> truthyStr (e ''OPENAI_API_KEY'')
      then \<lparr>useLocalLLM = True,
            localLLM = Some (newLocalLLMService e parseInt parseFloat),
            openaiApiKey = None, openaiModel = None,
            openaiMaxTokens = None, openaiTemperature = None\<rparr>
      else \<lparr>useLocalLLM = False,
            localLLM = None,
            openaiApiKey = e ''OPENAI_API_KEY'',
            openaiModel = Some (envOr e ''OPENAI_MODEL'' ''gpt-4''),
            openaiMaxTokens = Some (case parseInt (e ''OPENAI_MAX_TOKENS'') of
                                      Some n \<Rightarrow> if n \<noteq> 0 then n else 2000 | None \<Rightarrow> 2000),
            openaiTemperature = Some (case parseFloat (e ''OPENAI_TEMPERATURE'') of
                                        Some t \<Rightarrow> if t \<noteq> 0 then t else 7 / 10
                                      | None \<Rightarrow> 7 / 10)\<rparr>)"

text \<open>
  generateOpenAIResponse. After the anonymization of the prompt the method calls
  \<^verbatim>\<open>this.buildSystemPrompt(context)\<close>; ChatbotService has no method of that name
  (its template method is getSystemPrompt), so the call throws a TypeError before any
  request is sent, and the \<^verbatim>\<open>catch\<close> rethrows it.
\<close>

definition generateOpenAIResponse ::
  "chatbotService \<Rightarrow> externals \<Rightarrow> string \<Rightarrow> promptContext \<Rightarrow> privacyContext \<Rightarrow> error + llmResponse" where
  "generateOpenAIResponse svc ext prompt c pc =
     (case (if anonymization pc then anonymizePurpose ext prompt ''openai_request''
            else Inr prompt) of
        Inl err \<Rightarrow> Inl err
      | Inr anonymizedPrompt \<Rightarrow> Inl (TypeError ''this.buildSystemPrompt is not a function''))"

text \<open>
  generateLLMResponse: the provider of the configured mode, and in the \<^verbatim>\<open>catch\<close>
  the local service when the mode is OpenAI and \<^verbatim>\<open>this.localLLM\<close> is set;
  otherwise the error is thrown again.
\<close>

definition generateLLMResponse ::
  "chatbotService \<Rightarrow> externals \<Rightarrow> string \<Rightarrow> promptContext \<Rightarrow> privacyContext \<Rightarrow> error + llmResponse" where
  "generateLLMResponse svc ext prompt c pc =
     (case (if useLocalLLM svc
            then (case localLLM svc of
                    Some l \<Rightarrow> Inr (generateResponse l ext prompt c pc)
                  | None \<Rightarrow> Inl (TypeError ''Cannot read properties of undefined''))
            else generateOpenAIResponse svc ext prompt c pc) of
        Inr r \<Rightarrow> Inr r
      | Inl err \<Rightarrow>
          (case localLLM svc of
             Some l \<Rightarrow> if \<not> useLocalLLM svc then Inr (generateResponse l ext prompt c pc)
                       else Inl err
           | None \<Rightarrow> Inl err))"

text \<open>The prompt templates of ChatbotService.\<close>

definition getSystemPrompt :: "promptContext \<Rightarrow> string" where
  "getSystemPrompt c = chatbotPromptHead @ contextLines c"

definition buildAdvicePrompt :: "string \<Rightarrow> promptContext \<Rightarrow> string \<Rightarrow> string" where
  "buildAdvicePrompt query userContext additionalContext =
     getSystemPrompt userContext @
     [CHR 0x0A, CHR 0x0A] @ ''CONSULTA DEL USUARIO: '' @ query @
     [CHR 0x0A, CHR 0x0A] @ additionalContext @
     [CHR 0x0A, CHR 0x0A] @ ''Proporciona consejos nutricionales espec'' @
     [CHR 0xC3, CHR 0xAD] @ ''ficos y '' @ [CHR 0xC3, CHR 0xBA] @ ''tiles:''"

text \<open>A natural number in a template, in decimal.\<close>

function showNat :: "nat \<Rightarrow> string" where
  "showNat n =
     (if n < 10 then [char_of (48 + n)]
      else showNat (n div 10) @ [char_of (48 + n mod 10)])"
  by pat_completeness auto
termination
  by (relation "measure id") auto

text \<open>
  getPersonalizedAdvice: any exception of the generation is replaced by the error of the
  \<^verbatim>\<open>catch\<close> block.
\<close>

record adviceResult =
  advice :: string
  adv_model :: string
  adv_privacyCompliant :: bool
  adv_processingTime :: nat

definition getPersonalizedAdvice ::
  "chatbotService \<Rightarrow> externals \<Rightarrow> string \<Rightarrow> promptContext \<Rightarrow> privacyContext \<Rightarrow> error + adviceResult" where
  "getPersonalizedAdvice svc ext query c pc =
     (case generateLLMResponse svc ext (buildAdvicePrompt query c []) c pc of
        Inl err \<Rightarrow> Inl (Error ''Failed to generate personalized advice'')
      | Inr r \<Rightarrow>
          Inr \<lparr>advice = response r, adv_model = r_model r,
               adv_privacyCompliant = privacyCompliant r,
               adv_processingTime = processingTime r\<rparr>)"

section \<open>ChatbotService: health assessments (chatbotService.js)\<close>

text \<open>
  Modelled from the spec: utils/encryption (encryptData, decryptData) is not among the
  sources. The spec assumes of the storage boundary only an encrypt/decrypt/store/delete
  contract: a stored field is the value under a constructor, and decryptData followed by
  \<^verbatim>\<open>JSON.parse\<close> gives back what \<^verbatim>\<open>JSON.stringify\<close> followed by encryptData was
  given.
\<close>

datatype 'a encrypted = Encrypted 'a

definition encryptData :: "'a \<Rightarrow> 'a encrypted" where
  "encryptData x = Encrypted x"

fun decryptData :: "'a encrypted \<Rightarrow> 'a" where
  "decryptData (Encrypted x) = x"

text \<open>An entry of the answer list.\<close>

record answerEntry =
  questionId :: string
  answer :: string
  confidence :: "rat option"
  answeredAt :: string

text \<open>The entry as \<^verbatim>\<open>JSON.stringify\<close> sees it: an undefined confidence is left out.\<close>

definition answerJson :: "answerEntry \<Rightarrow> jsval" where
  "answerJson a =
     JObj ([(''questionId'', JStr (questionId a)), (''answer'', JStr (answer a))]
           @ (case confidence a of Some c \<Rightarrow> [(''confidence'', JNum c)] | None \<Rightarrow> [])
           @ [(''timestamp'', JStr (answeredAt a))])"

text \<open>
  \<open>currentQuestion\<close> is created as the number 1, overwritten with the text of the first
  question, and later with the number of the next question.
\<close>

datatype questionRef = QNum nat | QText string

text \<open>A row of the Assessment table; the row's id is its key in the store.\<close>

record assessment =
  userId :: string
  status :: string
  healthData :: "jsobj encrypted"
  anonymizedData :: "jsobj encrypted"
  progress :: int
  currentQuestion :: questionRef
  totalQuestions :: nat
  answers :: "answerEntry list encrypted option"
  recommendations :: "string encrypted option"
  nextQuestion :: "string option"
  createdAt :: string
  updatedAt :: string
  completedAt :: "string option"

type_synonym store = "string \<rightharpoonup> assessment"

text \<open>\<^verbatim>\<open>Assessment.findOne({ where: { id, userId } })\<close>.\<close>

definition findOne :: "store \<Rightarrow> string \<Rightarrow> string \<Rightarrow> assessment option" where
  "findOne st assessmentId uid =
     (case st assessmentId of
        Some a \<Rightarrow> if userId a = uid then Some a else None
      | None \<Rightarrow> None)"

text \<open>The decrypted answer list of a row; a row without answers has the empty list.\<close>

definition answersOf :: "assessment \<Rightarrow> answerEntry list" where
  "answersOf a = (case answers a of Some enc \<Rightarrow> decryptData enc | None \<Rightarrow> [])"

text \<open>
  A \<^verbatim>\<open>catch\<close> block that replaces whatever was thrown by a new error with a fixed
  message. What the \<^verbatim>\<open>try\<close> block had written to the store before stays written.
\<close>

definition rethrow :: "string \<Rightarrow> 's \<times> (error + 'a) \<Rightarrow> 's \<times> (error + 'a)" where
  "rethrow msg r = (case r of (s, Inl err) \<Rightarrow> (s, Inl (Error msg)) | (s, Inr v) \<Rightarrow> (s, Inr v))"

definition buildQuestionPrompt :: "externals \<Rightarrow> nat \<Rightarrow> jsobj \<Rightarrow> answerEntry list \<Rightarrow> string" where
  "buildQuestionPrompt ext questionNumber hdata previousAnswers =
     getSystemPrompt emptyContext @
     [CHR 0x0A, CHR 0x0A] @ ''EVALUACI'' @ [CHR 0xC3, CHR 0x93] @ ''N DE SALUD - PREGUNTA '' @
     showNat questionNumber @
     [CHR 0x0A, CHR 0x0A] @ ''DATOS DE SALUD DEL USUARIO:'' @ [CHR 0x0A] @
     stringify ext (JObj hdata) @
     [CHR 0x0A, CHR 0x0A] @ ''RESPUESTAS PREVIAS:'' @ [CHR 0x0A] @
     stringify ext (JArr (map answerJson previousAnswers)) @
     [CHR 0x0A, CHR 0x0A] @ ''Genera la siguiente pregunta de la evaluaci'' @
     [CHR 0xC3, CHR 0xB3] @ ''n de salud, considerando las respuestas previas:''"

definition buildRecommendationsPrompt :: "externals \<Rightarrow> jsobj \<Rightarrow> answerEntry list \<Rightarrow> string" where
  "buildRecommendationsPrompt ext hdata as =
     getSystemPrompt emptyContext @
     [CHR 0x0A, CHR 0x0A] @ ''RECOMENDACIONES FINALES'' @
     [CHR 0x0A, CHR 0x0A] @ ''DATOS DE SALUD:'' @ [CHR 0x0A] @
     stringify ext (JObj hdata) @
     [CHR 0x0A, CHR 0x0A] @ ''RESPUESTAS DE LA EVALUACI'' @ [CHR 0xC3, CHR 0x93] @ ''N:'' @ [CHR 0x0A] @
     stringify ext (JArr (map answerJson as)) @
     [CHR 0x0A, CHR 0x0A] @ ''Genera recomendaciones nutricionales personalizadas basadas '' @
     ''en la evaluaci'' @ [CHR 0xC3, CHR 0xB3] @ ''n:''"

text \<open>
  The context objects passed with these prompts carry the health data and the answers
  and none of the properties the templates read.
\<close>

definition generateAssessmentQuestion ::
  "chatbotService \<Rightarrow> externals \<Rightarrow> nat \<Rightarrow> jsobj \<Rightarrow> answerEntry list \<Rightarrow> privacyContext \<Rightarrow> error + string" where
  "generateAssessmentQuestion svc ext questionNumber hdata previousAnswers pc =
     (case generateLLMResponse svc ext (buildQuestionPrompt ext questionNumber hdata previousAnswers)
             emptyContext pc of
        Inl err \<Rightarrow> Inl err
      | Inr r \<Rightarrow> Inr (response r))"

definition generateFinalRecommendations ::
  "chatbotService \<Rightarrow> externals \<Rightarrow> jsobj \<Rightarrow> answerEntry list \<Rightarrow> privacyContext \<Rightarrow> error + string" where
  "generateFinalRecommendations svc ext hdata as pc =
     (case generateLLMResponse svc ext (buildRecommendationsPrompt ext hdata as) emptyContext pc of
        Inl err \<Rightarrow> Inl err
      | Inr r \<Rightarrow> Inr (response r))"

definition calculateEstimatedCompletion :: "nat \<Rightarrow> nat" where
  "calculateEstimatedCompletion n = n * 2"

text \<open>
  startHealthAssessment. \<open>newId\<close> is the value of \<^verbatim>\<open>uuidv4()\<close> and \<open>now\<close> the clock
  reading. The row is created before the first question is requested; creating a row
  under an id that is taken is refused by the table. When the request for the first
  question throws, the created row stays in the store.
\<close>

record startResult =
  sr_id :: string
  sr_status :: string
  sr_nextQuestion :: string
  sr_progress :: int
  sr_estimatedCompletion :: nat

definition startHealthAssessment_try ::
  "chatbotService \<Rightarrow> externals \<Rightarrow> string \<Rightarrow> string \<Rightarrow> store \<Rightarrow> string \<Rightarrow> jsobj \<Rightarrow> privacyContext
    \<Rightarrow> store \<times> (error + startResult)" where
  "startHealthAssessment_try svc ext newId now st uid hdata pc =
     (case (if anonymization pc then anonymizeObject ext hdata ''health_assessment'' else Inr hdata) of
        Inl err \<Rightarrow> (st, Inl err)
      | Inr anonymized \<Rightarrow>
          (case st newId of
             Some _ \<Rightarrow> (st, Inl (Error ''Validation error''))
           | None \<Rightarrow>
               (let a = \<lparr>userId = uid,
                         status = ''in_progress'',
                         healthData = encryptData hdata,
                         anonymizedData = encryptData anonymized,
                         progress = 0,
                         currentQuestion = QNum 1,
                         totalQuestions = 15,
                         answers = None,
                         recommendations = None,
                         nextQuestion = None,
                         createdAt = now,
                         updatedAt = now,
                         completedAt = None\<rparr>;
                    st1 = st(newId \<mapsto> a)
                in case generateAssessmentQuestion svc ext 1 anonymized [] pc of
                     Inl err \<Rightarrow> (st1, Inl err)
                   | Inr firstQuestion \<Rightarrow>
                       (st1(newId \<mapsto> a\<lparr>currentQuestion := QText firstQuestion,
                                         nextQuestion := Some firstQuestion\<rparr>),
                        Inr \<lparr>sr_id = newId,
                             sr_status = status a,
                             sr_nextQuestion = firstQuestion,
                             sr_progress = progress a,
                             sr_estimatedCompletion =
                               calculateEstimatedCompletion (totalQuestions a)\<rparr>))))"

definition startHealthAssessment ::
  "chatbotService \<Rightarrow> externals \<Rightarrow> string \<Rightarrow> string \<Rightarrow> store \<Rightarrow> string \<Rightarrow> jsobj \<Rightarrow> privacyContext
    \<Rightarrow> store \<times> (error + startResult)" where
  "startHealthAssessment svc ext newId now st uid hdata pc =
     rethrow ''Failed to start health assessment''
       (startHealthAssessment_try svc ext newId now st uid hdata pc)"

text \<open>
  processAnswer. The answer is pushed onto the decrypted list in memory; the provider is
  asked for the recommendations or for the next question; only then one update writes
  the answers with the rest. \<^verbatim>\<open>Math.round\<close> rounds halves up, as \<open>round\<close> does; the
  quotient is exact here, which agrees with the floating-point computation for a total of
  15, where no quotient is near a half.
\<close>

record answerResult =
  ar_status :: string
  ar_nextQuestion :: "string option"
  ar_recommendations :: "string option"
  ar_progress :: int
  ar_estimatedCompletion :: "nat option"

definition processAnswer_try ::
  "chatbotService \<Rightarrow> externals \<Rightarrow> string \<Rightarrow> store \<Rightarrow> string \<Rightarrow> string \<Rightarrow> string \<Rightarrow> string
    \<Rightarrow> rat option \<Rightarrow> privacyContext \<Rightarrow> store \<times> (error + answerResult)" where
  "processAnswer_try svc ext now st uid assessmentId qid ans conf pc =
     (case findOne st assessmentId uid of
        None \<Rightarrow> (st, Inl (Error ''Assessment not found''))
      | Some a \<Rightarrow>
          (let hdata = decryptData (healthData a);
               as = answersOf a @
                      [\<lparr>questionId = qid, answer = ans, confidence = conf, answeredAt = now\<rparr>];
               prog = round ((of_nat (length as) / of_nat (totalQuestions a)) * (100 :: rat))
           in if length as \<ge> totalQuestions a
              then (case generateFinalRecommendations svc ext hdata as pc of
                      Inl err \<Rightarrow> (st, Inl err)
                    | Inr recs \<Rightarrow>
                        (st(assessmentId \<mapsto>
                              a\<lparr>status := ''completed'',
                                progress := 100,
                                answers := Some (encryptData as),
                                recommendations := Some (encryptData recs),
                                completedAt := Some now\<rparr>),
                         Inr \<lparr>ar_status = ''completed'',
                              ar_nextQuestion = None,
                              ar_recommendations = Some recs,
                              ar_progress = 100,
                              ar_estimatedCompletion = None\<rparr>))
              else (case generateAssessmentQuestion svc ext (length as + 1) hdata as pc of
                      Inl err \<Rightarrow> (st, Inl err)
                    | Inr q \<Rightarrow>
                        (st(assessmentId \<mapsto>
                              a\<lparr>currentQuestion := QNum (length as + 1),
                                answers := Some (encryptData as),
                                progress := prog,
                                nextQuestion := Some q\<rparr>),
                         Inr \<lparr>ar_status = status a,
                              ar_nextQuestion = Some q,
                              ar_recommendations = None,
                              ar_progress = prog,
                              ar_estimatedCompletion =
                                Some (calculateEstimatedCompletion (totalQuestions a))\<rparr>))))"

definition processAnswer ::
  "chatbotService \<Rightarrow> externals \<Rightarrow> string \<Rightarrow> store \<Rightarrow> string \<Rightarrow> string \<Rightarrow> string \<Rightarrow> string
    \<Rightarrow> rat option \<Rightarrow> privacyContext \<Rightarrow> store \<times> (error + answerResult)" where
  "processAnswer svc ext now st uid assessmentId qid ans conf pc =
     rethrow ''Failed to process answer''
       (processAnswer_try svc ext now st uid assessmentId qid ans conf pc)"

text \<open>getAssessment: a read; the health data is included only on request.\<close>

record assessmentView =
  v_id :: string
  v_status :: string
  v_progress :: int
  v_healthData :: "jsobj option"
  v_answers :: "answerEntry list"
  v_recommendations :: "string option"
  v_createdAt :: string
  v_completedAt :: "string option"

definition getAssessment_try ::
  "store \<Rightarrow> string \<Rightarrow> string \<Rightarrow> privacyContext \<Rightarrow> store \<times> (error + assessmentView)" where
  "getAssessment_try st uid assessmentId pc =
     (case findOne st assessmentId uid of
        None \<Rightarrow> (st, Inl (Error ''Assessment not found''))
      | Some a \<Rightarrow>
          (st, Inr \<lparr>v_id = assessmentId,
                    v_status = status a,
                    v_progress = progress a,
                    v_healthData = (if includeHealthData pc
                                    then Some (decryptData (healthData a)) else None),
                    v_answers = answersOf a,
                    v_recommendations = (case recommendations a of
                                           Some enc \<Rightarrow> Some (decryptData enc) | None \<Rightarrow> None),
                    v_createdAt = createdAt a,
                    v_completedAt = completedAt a\<rparr>))"

definition getAssessment ::
  "store \<Rightarrow> string \<Rightarrow> string \<Rightarrow> privacyContext \<Rightarrow> store \<times> (error + assessmentView)" where
  "getAssessment st uid assessmentId pc =
     rethrow ''Failed to retrieve assessment'' (getAssessment_try st uid assessmentId pc)"

text \<open>deleteAssessment: the row is destroyed.\<close>

definition deleteAssessment_try ::
  "store \<Rightarrow> string \<Rightarrow> string \<Rightarrow> store \<times> (error + string)" where
  "deleteAssessment_try st uid assessmentId =
     (case findOne st assessmentId uid of
        None \<Rightarrow> (st, Inl (Error ''Assessment not found''))
      | Some a \<Rightarrow> (st(assessmentId := None), Inr ''Assessment permanently deleted''))"

definition deleteAssessment ::
  "store \<Rightarrow> string \<Rightarrow> string \<Rightarrow> store \<times> (error + string)" where
  "deleteAssessment st uid assessmentId =
     rethrow ''Failed to delete assessment'' (deleteAssessment_try st uid assessmentId)"

text \<open>
  The handlers of the routes GET and DELETE /assessment/:id (routes/chatbot.js), after
  authentication: the status and the code of the response. The GET handler answers 404
  when the value the service returns is falsy, and both answer 500 when the service throws.
\<close>

definition respondAssessment :: "assessmentView option \<Rightarrow> nat \<times> string" where
  "respondAssessment v = (case v of None \<Rightarrow> (404, ''ASSESSMENT_NOT_FOUND'') | Some _ \<Rightarrow> (200, ''OK''))"

definition routeGetAssessment :: "store \<Rightarrow> string \<Rightarrow> string \<Rightarrow> privacyContext \<Rightarrow> nat \<times> string" where
  "routeGetAssessment st uid assessmentId pc =
     (case snd (getAssessment st uid assessmentId pc) of
        Inr v \<Rightarrow> respondAssessment (Some v)
      | Inl err \<Rightarrow> (500, ''ASSESSMENT_RETRIEVAL_ERROR''))"

definition routeDeleteAssessment :: "store \<Rightarrow> string \<Rightarrow> string \<Rightarrow> store \<times> nat \<times> string" where
  "routeDeleteAssessment st uid assessmentId =
     (case deleteAssessment st uid assessmentId of
        (st1, Inr v) \<Rightarrow> (st1, 200, ''OK'')
      | (st1, Inl err) \<Rightarrow> (st1, 500, ''ASSESSMENT_DELETION_ERROR''))"

text \<open>
  The states of the store that calls of the service produce when they run one after
  another: from the empty table, by any sequence of its three writing operations, with
  any provider behaviour at each step. Each call is taken as a whole. Requests that
  overlap are not in this relation: processAnswer awaits the provider between its read
  and its update and takes no lock.
\<close>

inductive reachable :: "store \<Rightarrow> bool" where
  r_empty: "reachable Map.empty"
| r_start: "reachable st \<Longrightarrow>
            reachable (fst (startHealthAssessment svc ext newId now st uid hdata pc))"
| r_answer: "reachable st \<Longrightarrow>
             reachable (fst (processAnswer svc ext now st uid assessmentId qid ans conf pc))"
| r_delete: "reachable st \<Longrightarrow> reachable (fst (deleteAssessment st uid assessmentId))"

text \<open>
  A run of answers against one assessment, stopping at the first call that throws.
  An input is the question id, the answer, the confidence and the clock reading.
\<close>

fun processAnswers ::
  "chatbotService \<Rightarrow> externals \<Rightarrow> store \<Rightarrow> string \<Rightarrow> string \<Rightarrow> privacyContext
    \<Rightarrow> (string \<times> string \<times> rat option \<times> string) list \<Rightarrow> store \<times> (error + unit)" where
  "processAnswers svc ext st uid assessmentId pc [] = (st, Inr ())"
| "processAnswers svc ext st uid assessmentId pc ((qid, ans, conf, now) # rest) =
     (case processAnswer svc ext now st uid assessmentId qid ans conf pc of
        (st1, Inl err) \<Rightarrow> (st1, Inl err)
      | (st1, Inr r) \<Rightarrow> processAnswers svc ext st1 uid assessmentId pc rest)"

text \<open>
  The update of the branch of processAnswer that asks for the next question, as the table
  applies it: the call has read the row \<open>a\<close> and computed the answer list and the
  progress from it, and \<^verbatim>\<open>assessment.update\<close> writes the four fields it names on the
  row that is stored when the update arrives, whose other columns (the status among
  them) stay as they are.
\<close>

definition nextQuestionWrite ::
  "assessment \<Rightarrow> string \<Rightarrow> string \<Rightarrow> rat option \<Rightarrow> string \<Rightarrow> string \<Rightarrow> assessment \<Rightarrow> assessment" where
  "nextQuestionWrite a qid ans conf now q row =
     (let as = answersOf a @
                 [\<lparr>questionId = qid, answer = ans, confidence = conf, answeredAt = now\<rparr>];
          prog = round ((of_nat (length as) / of_nat (totalQuestions a)) * (100 :: rat))
      in row\<lparr>currentQuestion := QNum (length as + 1),
             answers := Some (encryptData as),
             progress := prog,
             nextQuestion := Some q\<rparr>)"

text \<open>The row that startHealthAssessment creates.\<close>

definition createdRow :: "string \<Rightarrow> string \<Rightarrow> jsobj \<Rightarrow> jsobj \<Rightarrow> assessment" where
  "createdRow uid now hdata anonymized =
     \<lparr>userId = uid, status = ''in_progress'', healthData = encryptData hdata,
      anonymizedData = encryptData anonymized, progress = 0, currentQuestion = QNum 1,
      totalQuestions = 15, answers = None, recommendations = None, nextQuestion = None,
      createdAt = now, updatedAt = now, completedAt = None\<rparr>"

text \<open>
  What holds of every stored row: the total is 15 and the progress is a percentage; a row
  in progress has fewer answers than the total and the rounded quotient as its progress;
  every other row is completed, with at least as many answers as the total and
  progress 100.
\<close>

definition assessmentInv :: "assessment \<Rightarrow> bool" where
  "assessmentInv a =
     (totalQuestions a = 15 \<and> 0 \<le> progress a \<and> progress a \<le> 100
      \<and> (if status a = ''in_progress''
          then length (answersOf a) < totalQuestions a
               \<and> progress a = round (100 * of_nat (length (answersOf a))
                                        / of_nat (totalQuestions a) :: rat)
          else status a = ''completed'' \<and> totalQuestions a \<le> length (answersOf a)
               \<and> progress a = 100))"

section \<open>Concrete configurations\<close>

text \<open>
  A service constructed without an OpenAI key (local mode) and one constructed with a key
  and without USE_LOCAL_LLM (OpenAI mode).
\<close>

definition localModeService :: chatbotService where
  "localModeService = newChatbotService Map.empty (\<lambda>s. None) (\<lambda>s. None)"

definition openaiModeService :: chatbotService where
  "openaiModeService =
     newChatbotService [''OPENAI_API_KEY'' \<mapsto> ''sk-test''] (\<lambda>s. None) (\<lambda>s. None)"

text \<open>
  Collaborators: an anonymizer that changes nothing, a serializer that prints every value
  as \<open>{}\<close>, lower-casing of ASCII text, and a local inference server that is down, or
  that answers every request with the same text.
\<close>

definition offlineExternals :: externals where
  "offlineExternals =
     \<lparr>anonymizeText = (\<lambda>p opts. Inr p),
      anonymizePurpose = (\<lambda>p purpose. Inr p),
      anonymizeObject = (\<lambda>obj purpose. Inr obj),
      axios_post = (\<lambda>url rq. Inl (Error ''connect ECONNREFUSED'')),
      stringify = (\<lambda>v. ''{}''),
      toLowerCase = asciiLowerCase\<rparr>"

definition answeringExternals :: externals where
  "answeringExternals =
     offlineExternals\<lparr>axios_post :=
       (\<lambda>url rq. Inr (Some \<lparr>reply_response = Some ''ok'', eval_duration = Some 5\<rparr>))\<rparr>"

text \<open>A privacy context with every switch off and no level set.\<close>

definition plainContext :: privacyContext where
  "plainContext =
     \<lparr>timestamp = ''t0'', ipAddress = None, userAgent = None, consentValid = True,
      dataMinimization = False, anonymization = False, gdprCompliance = False,
      lopdgddCompliance = False, anonymizationLevel = None, includeHealthData = False\<rparr>"

section \<open>Properties of data minimization\<close>

lemma getProp_deleteProp: "getProp (deleteProp i m) k = (if k = i then None else getProp m k)"
  unfolding getProp_def deleteProp_def
  by (induction m) auto

lemma truthyProp_deleteProp: "truthyProp (deleteProp i m) k = (k \<noteq> i \<and> truthyProp m k)"
  by (simp add: truthyProp_def getProp_deleteProp)

text \<open>The loop over the keys keeps exactly the properties whose key is allowed.\<close>

lemma allow_loop:
  "fold (\<lambda>key m. if key \<notin> A then deleteProp key m else m) ks m
     = filter (\<lambda>kv. fst kv \<in> A \<or> fst kv \<notin> set ks) m"
proof (induction ks arbitrary: m)
  case Nil
  show ?case by simp
next
  case (Cons k ks)
  show ?case
    by (auto simp: Cons.IH deleteProp_def intro!: filter_cong)
qed

text \<open>The loop over the identifiers removes those whose value is truthy.\<close>

lemma deny_loop:
  "fold (\<lambda>identifier m. if truthyProp m identifier then deleteProp identifier m else m) ids m
     = filter (\<lambda>kv. \<not> (fst kv \<in> set ids \<and> truthyProp m (fst kv))) m"
proof (induction ids arbitrary: m)
  case Nil
  show ?case by simp
next
  case (Cons i ids)
  show ?case
  proof (cases "truthyProp m i")
    case True
    have "fold (\<lambda>identifier m. if truthyProp m identifier then deleteProp identifier m else m) (i # ids) m
        = filter (\<lambda>kv. \<not> (fst kv \<in> set ids \<and> truthyProp (deleteProp i m) (fst kv))) (deleteProp i m)"
      using True by (simp add: Cons.IH)
    also have "\<dots> = filter (\<lambda>kv. \<not> (fst kv \<in> set ids \<and> fst kv \<noteq> i \<and> truthyProp m (fst kv))) (deleteProp i m)"
      by (simp add: truthyProp_deleteProp)
    also have "\<dots> = filter (\<lambda>kv. fst kv \<noteq> i \<and> \<not> (fst kv \<in> set ids \<and> truthyProp m (fst kv))) m"
      unfolding deleteProp_def by (auto intro!: filter_cong)
    also have "\<dots> = filter (\<lambda>kv. \<not> (fst kv \<in> set (i # ids) \<and> truthyProp m (fst kv))) m"
      using True by (intro filter_cong) auto
    finally show ?thesis .
  next
    case False
    then show ?thesis
      by (auto simp: Cons.IH intro!: filter_cong)
  qed
qed

lemma map_of_filter_keys:
  "map_of (filter (\<lambda>kv. P (fst kv)) m) k = (if P k then map_of m k else None)"
  by (induction m) auto

lemma truthyProp_filter_keys:
  "truthyProp (filter (\<lambda>kv. P (fst kv)) m) k = (P k \<and> truthyProp m k)"
  by (simp add: truthyProp_def getProp_def map_of_filter_keys)

lemma allowed_filter:
  "fold (\<lambda>key m. if key \<notin> A then deleteProp key m else m) (objectKeys m) m
     = filter (\<lambda>kv. fst kv \<in> A) m"
  unfolding allow_loop objectKeys_def
  by (rule filter_cong) auto

lemma minimizeData_filter:
  "minimizeData data pth =
     (let m1 = (if str_includes pth ''/chatbot/''
                then filter (\<lambda>kv. fst kv \<in> set allowedFields) data else data)
      in filter (\<lambda>kv. \<not> (fst kv \<in> set personalIdentifiers \<and> truthyProp m1 (fst kv))) m1)"
  by (simp add: minimizeData_def Let_def deny_loop allowed_filter)

lemma identifier_not_allowed: "f \<in> set personalIdentifiers \<Longrightarrow> f \<notin> set allowedFields"
  by (auto simp: personalIdentifiers_def allowedFields_def)

lemma truthyProp_in_keys: "truthyProp m k \<Longrightarrow> k \<in> set (objectKeys m)"
  by (auto simp: truthyProp_def getProp_def objectKeys_def split: option.splits
           dest: map_of_SomeD intro: rev_image_eqI)

text \<open>
  C9, the claim as stated fails: outside the chatbot paths a body
  \<^verbatim>\<open>{"query": "hola", "email": ""}\<close> keeps its \<open>email\<close> field, because the
  identifier loop tests the value for truthiness before deleting.
\<close>

theorem minimizeData_keeps_falsy_identifier:
  "''email'' \<in> set personalIdentifiers \<and>
   ''email'' \<in> set (objectKeys
      (minimizeData [(''query'', JStr ''hola''), (''email'', JStr [])] ''/personalized-advice''))"
  by code_simp

text \<open>
  C9, amended: for every payload and path, minimizeData removes every deny-listed
  identifier whose value is truthy, so that afterwards no deny-listed field has a truthy
  value; for a path containing \<open>/chatbot/\<close> only allow-listed fields remain (and so no
  deny-listed field at all); and every field that remains is a field of the payload.
\<close>

theorem minimizeData_deny_and_allow:
  "(\<forall>f \<in> set personalIdentifiers.
       (truthyProp data f \<longrightarrow> f \<notin> set (objectKeys (minimizeData data pth)))
       \<and> \<not> truthyProp (minimizeData data pth) f)
   \<and> (str_includes pth ''/chatbot/'' \<longrightarrow>
         set (objectKeys (minimizeData data pth)) \<subseteq> set allowedFields - set personalIdentifiers)
   \<and> set (minimizeData data pth) \<subseteq> set data"
proof (intro conjI ballI impI)
  fix f assume f: "f \<in> set personalIdentifiers"
  define m1 where "m1 = (if str_includes pth ''/chatbot/''
                then filter (\<lambda>kv. fst kv \<in> set allowedFields) data else data)"
  have eq: "minimizeData data pth =
      filter (\<lambda>kv. \<not> (fst kv \<in> set personalIdentifiers \<and> truthyProp m1 (fst kv))) m1"
    by (simp add: minimizeData_filter m1_def)
  show "\<not> truthyProp (minimizeData data pth) f"
    using f unfolding eq
    using truthyProp_filter_keys[where P = "\<lambda>k. \<not> (k \<in> set personalIdentifiers \<and> truthyProp m1 k)"
                                   and m = m1 and k = f]
    by blast
  show "f \<notin> set (objectKeys (minimizeData data pth))" if t: "truthyProp data f"
  proof (cases "str_includes pth ''/chatbot/''")
    case True
    then show ?thesis
      using identifier_not_allowed[OF f] by (auto simp: eq m1_def objectKeys_def)
  next
    case False
    then show ?thesis
      using f t by (auto simp: eq m1_def objectKeys_def)
  qed
next
  assume c: "str_includes pth ''/chatbot/''"
  show "set (objectKeys (minimizeData data pth)) \<subseteq> set allowedFields - set personalIdentifiers"
  proof
    fix k assume k: "k \<in> set (objectKeys (minimizeData data pth))"
    have "k \<in> set allowedFields"
      using c k by (auto simp: minimizeData_filter objectKeys_def)
    moreover have "k \<notin> set personalIdentifiers"
      using identifier_not_allowed[of k] calculation by blast
    ultimately show "k \<in> set allowedFields - set personalIdentifiers" by simp
  qed
next
  show "set (minimizeData data pth) \<subseteq> set data"
    by (auto simp: minimizeData_filter split: if_splits)
qed

theorem minimizeData_deny_and_allow_witness:
  "''phone'' \<in> set personalIdentifiers
   \<and> truthyProp [(''message'', JStr ''hi''), (''phone'', JStr ''600''), (''nick'', JStr ''a'')] ''phone''
   \<and> str_includes ''/api/chatbot/message'' ''/chatbot/''
   \<and> ''phone'' \<notin> set (objectKeys (minimizeData
        [(''message'', JStr ''hi''), (''phone'', JStr ''600''), (''nick'', JStr ''a'')]
        ''/api/chatbot/message''))
   \<and> set (objectKeys (minimizeData
        [(''message'', JStr ''hi''), (''phone'', JStr ''600''), (''nick'', JStr ''a'')]
        ''/api/chatbot/message'')) \<subseteq> set allowedFields - set personalIdentifiers"
proof -
  have h1: "''phone'' \<in> set personalIdentifiers" by code_simp
  have h2: "truthyProp [(''message'', JStr ''hi''), (''phone'', JStr ''600''), (''nick'', JStr ''a'')] ''phone''"
    by code_simp
  have h3: "str_includes ''/api/chatbot/message'' ''/chatbot/''" by code_simp
  show ?thesis
    using h1 h2 h3
      minimizeData_deny_and_allow[of
        "[(''message'', JStr ''hi''), (''phone'', JStr ''600''), (''nick'', JStr ''a'')]"
        "''/api/chatbot/message''"]
    by blast
qed

section \<open>Properties of the privacy middleware\<close>

text \<open>privacyMiddleware, with its intermediate values named.\<close>

lemma privacyMiddleware_eq:
  "privacyMiddleware vc an e now req res =
     (let ctx1 = (newPrivacyContext e now req)
                   \<lparr>consentValid := (case consentToken req of Some tok \<Rightarrow> vc tok | None \<Rightarrow> False)\<rparr>;
          res1 = res_set securityHeaders res;
          req1 = req\<lparr>privacyCtx := Some ctx1\<rparr>
      in case body req of
           None \<Rightarrow> (req1, res1, Next)
         | Some b \<Rightarrow>
             (let req2 = req1\<lparr>body := Some (minimizedBody e req b)\<rparr>
              in if e ''ANONYMIZATION_ENABLED'' = Some ''true''
                 then (case an (minimizedBody e req b) (path req) of
                         Inl err \<Rightarrow> (req2, res1, NextError err)
                       | Inr b' \<Rightarrow> (req2\<lparr>body := Some b'\<rparr>, res1, Next))
                 else (req2, res1, Next)))"
proof (cases "consentToken req")
  case None
  show ?thesis
  proof (cases "body req")
    case nb: None
    show ?thesis
      unfolding privacyMiddleware_def
      by (simp only: Let_def) (simp add: None nb newPrivacyContext_def)
  next
    case (Some b)
    show ?thesis
      unfolding privacyMiddleware_def
      by (simp only: Let_def) (simp add: None Some minimizedBody_def newPrivacyContext_def split: sum.splits)
  qed
next
  case st: (Some tok)
  show ?thesis
  proof (cases "body req")
    case None
    show ?thesis
      unfolding privacyMiddleware_def
      by (simp only: Let_def) (simp add: None st newPrivacyContext_def)
  next
    case (Some b)
    show ?thesis
      unfolding privacyMiddleware_def
      by (simp only: Let_def) (simp add: st Some minimizedBody_def newPrivacyContext_def split: sum.splits)
  qed
qed

lemma privacyMiddleware_ctx:
  "privacyCtx (fst (privacyMiddleware vc an e now req res)) =
     Some ((newPrivacyContext e now req)
             \<lparr>consentValid := (case consentToken req of Some tok \<Rightarrow> vc tok | None \<Rightarrow> False)\<rparr>)"
  unfolding privacyMiddleware_eq Let_def
  by (cases "body req"; cases "e ''ANONYMIZATION_ENABLED'' = Some ''true''";
      simp split: sum.splits)

lemma privacyMiddleware_path:
  "path (fst (privacyMiddleware vc an e now req res)) = path req"
  unfolding privacyMiddleware_eq Let_def
  by (cases "body req"; cases "e ''ANONYMIZATION_ENABLED'' = Some ''true''";
      simp split: sum.splits)

lemma privacyMiddleware_not_Ended:
  "snd (snd (privacyMiddleware vc an e now req res)) \<noteq> Ended"
  unfolding privacyMiddleware_eq Let_def
  by (cases "body req"; cases "e ''ANONYMIZATION_ENABLED'' = Some ''true''";
      simp split: sum.splits)

text \<open>
  C10: the privacy context that privacyMiddleware builds has \<open>consentValid\<close> false when
  the request carries neither an \<open>x-consent-token\<close> header nor a \<open>consentToken\<close>
  cookie, and \<open>consentValid\<close> is true only when a non-empty token is present in the
  header or the cookie and validateConsent accepts it.
\<close>

theorem consentValid_only_with_accepted_token:
  "\<exists>ctx. privacyCtx (fst (privacyMiddleware validateConsent an e now req res)) = Some ctx
     \<and> (headers req ''x-consent-token'' = None
          \<and> (case cookies req of None \<Rightarrow> True | Some c \<Rightarrow> c ''consentToken'' = None)
          \<longrightarrow> \<not> consentValid ctx)
     \<and> (consentValid ctx \<longrightarrow>
          (\<exists>tok. tok \<noteq> []
             \<and> (headers req ''x-consent-token'' = Some tok
                  \<or> (\<exists>c. cookies req = Some c \<and> c ''consentToken'' = Some tok))
             \<and> validateConsent tok))"
  unfolding privacyMiddleware_ctx
  by (auto simp: consentToken_def js_or_def truthyStr_def Let_def split: option.splits if_splits)

theorem consentValid_only_with_accepted_token_witness:
  "headers \<lparr>path = ''/health-assessment'', ip = None, headers = Map.empty, cookies = None,
            body = None, privacyCtx = None\<rparr> ''x-consent-token'' = None
   \<and> (\<exists>ctx. privacyCtx (fst (privacyMiddleware (\<lambda>tok. True) (\<lambda>b p. Inr b) Map.empty ''t0''
          \<lparr>path = ''/health-assessment'', ip = None, headers = Map.empty, cookies = None,
           body = None, privacyCtx = None\<rparr>
          \<lparr>headersOut = Map.empty, statusCode = 200, jsonBody = None\<rparr>)) = Some ctx
        \<and> \<not> consentValid ctx)
   \<and> (\<exists>ctx. privacyCtx (fst (privacyMiddleware (\<lambda>tok. tok = ''granted'') (\<lambda>b p. Inr b) Map.empty ''t0''
          \<lparr>path = ''/health-assessment'', ip = None,
           headers = [''x-consent-token'' \<mapsto> ''granted''], cookies = None,
           body = None, privacyCtx = None\<rparr>
          \<lparr>headersOut = Map.empty, statusCode = 200, jsonBody = None\<rparr>)) = Some ctx
        \<and> consentValid ctx)"
proof -
  have a: "\<exists>ctx. privacyCtx (fst (privacyMiddleware (\<lambda>tok. True) (\<lambda>b p. Inr b) Map.empty ''t0''
          \<lparr>path = ''/health-assessment'', ip = None, headers = Map.empty, cookies = None,
           body = None, privacyCtx = None\<rparr>
          \<lparr>headersOut = Map.empty, statusCode = 200, jsonBody = None\<rparr>)) = Some ctx
        \<and> \<not> consentValid ctx"
    using consentValid_only_with_accepted_token[of "\<lambda>tok. True" "\<lambda>b p. Inr b" Map.empty "''t0''"
          "\<lparr>path = ''/health-assessment'', ip = None, headers = Map.empty, cookies = None,
           body = None, privacyCtx = None\<rparr>"
          "\<lparr>headersOut = Map.empty, statusCode = 200, jsonBody = None\<rparr>"]
    by auto
  have b: "\<exists>ctx. privacyCtx (fst (privacyMiddleware (\<lambda>tok. tok = ''granted'') (\<lambda>b p. Inr b) Map.empty ''t0''
          \<lparr>path = ''/health-assessment'', ip = None,
           headers = [''x-consent-token'' \<mapsto> ''granted''], cookies = None,
           body = None, privacyCtx = None\<rparr>
          \<lparr>headersOut = Map.empty, statusCode = 200, jsonBody = None\<rparr>)) = Some ctx
        \<and> consentValid ctx"
    unfolding privacyMiddleware_ctx
    by (simp add: consentToken_def js_or_def truthyStr_def newPrivacyContext_def)
  show ?thesis using a b by simp
qed

text \<open>
  C1, the claim as stated fails: a request to \<open>/health-assessment\<close> without a consent
  token, with minimization and anonymization enabled, is answered with 403 and
  HEALTH_CONSENT_REQUIRED, but by then its body has been minimized (the \<open>email\<close> field is
  gone) and handed to the anonymizer (whose mark is on the body): privacyMiddleware has
  run to its end before the consent check is made.
\<close>

theorem consent_check_after_minimization:
  "snd (snd (enhancedPrivacyMiddleware (\<lambda>tok. True)
        (\<lambda>b p. Inr (b @ [(''anonymized'', JBool True)]))
        [''DATA_MINIMIZATION_ENABLED'' \<mapsto> ''true'', ''ANONYMIZATION_ENABLED'' \<mapsto> ''true'']
        ''t0'' ''t1''
        \<lparr>path = ''/health-assessment'', ip = None, headers = Map.empty, cookies = None,
         body = Some [(''age'', JNum 30), (''email'', JStr ''ana@example.org'')],
         privacyCtx = None\<rparr>
        \<lparr>headersOut = Map.empty, statusCode = 200, jsonBody = None\<rparr>)) = Ended
   \<and> statusCode (fst (snd (enhancedPrivacyMiddleware (\<lambda>tok. True)
        (\<lambda>b p. Inr (b @ [(''anonymized'', JBool True)]))
        [''DATA_MINIMIZATION_ENABLED'' \<mapsto> ''true'', ''ANONYMIZATION_ENABLED'' \<mapsto> ''true'']
        ''t0'' ''t1''
        \<lparr>path = ''/health-assessment'', ip = None, headers = Map.empty, cookies = None,
         body = Some [(''age'', JNum 30), (''email'', JStr ''ana@example.org'')],
         privacyCtx = None\<rparr>
        \<lparr>headersOut = Map.empty, statusCode = 200, jsonBody = None\<rparr>))) = 403
   \<and> body (fst (enhancedPrivacyMiddleware (\<lambda>tok. True)
        (\<lambda>b p. Inr (b @ [(''anonymized'', JBool True)]))
        [''DATA_MINIMIZATION_ENABLED'' \<mapsto> ''true'', ''ANONYMIZATION_ENABLED'' \<mapsto> ''true'']
        ''t0'' ''t1''
        \<lparr>path = ''/health-assessment'', ip = None, headers = Map.empty, cookies = None,
         body = Some [(''age'', JNum 30), (''email'', JStr ''ana@example.org'')],
         privacyCtx = None\<rparr>
        \<lparr>headersOut = Map.empty, statusCode = 200, jsonBody = None\<rparr>))
      = Some [(''age'', JNum 30), (''anonymized'', JBool True)]"
  by code_simp


text \<open>
  C1, amended: for every request whose path contains \<open>/health\<close> or \<open>/medical\<close> and
  whose privacy context has \<open>consentValid\<close> false, the stack behind
  enhancedPrivacyMiddleware (the route handlers, and with them every provider call) is
  never entered: unless privacyMiddleware itself handed an exception to the error handler,
  the response is 403 with the code HEALTH_CONSENT_REQUIRED. The consent check is made
  after privacyMiddleware has run: the body of the rejected request is already the
  minimized (when enabled) and anonymized (when enabled and successful) one.
\<close>

theorem health_consent_gate:
  assumes "str_includes (path req) ''/health'' \<or> str_includes (path req) ''/medical''"
    and "\<exists>ctx. privacyCtx (fst (privacyMiddleware vc an e now req res)) = Some ctx
               \<and> \<not> consentValid ctx"
  shows "(let req1 = fst (privacyMiddleware vc an e now req res);
              res1 = fst (snd (privacyMiddleware vc an e now req res));
              rejection = res1\<lparr>statusCode := 403,
                               jsonBody := Some (healthConsentRequired now2)\<rparr>
          in (case snd (snd (privacyMiddleware vc an e now req res)) of
                NextError err \<Rightarrow>
                  enhancedPrivacyMiddleware vc an e now now2 req res = (req1, res1, NextError err)
                  \<and> routerUse (enhancedPrivacyMiddleware vc an e now now2) rest req res = Failed err
              | _ \<Rightarrow>
                  enhancedPrivacyMiddleware vc an e now now2 req res = (req1, rejection, Ended)
                  \<and> routerUse (enhancedPrivacyMiddleware vc an e now now2) rest req res
                        = Rejected rejection)
             \<and> (\<forall>r. routerUse (enhancedPrivacyMiddleware vc an e now now2) rest req res
                        \<noteq> Continued r)
             \<and> body req1 =
                   (case body req of
                      None \<Rightarrow> None
                    | Some b \<Rightarrow>
                        Some (if e ''ANONYMIZATION_ENABLED'' = Some ''true''
                              then (case an (minimizedBody e req b) (path req) of
                                      Inr b' \<Rightarrow> b' | Inl err \<Rightarrow> minimizedBody e req b)
                              else minimizedBody e req b)))"
proof -
  obtain req1 res1 oc where pm: "privacyMiddleware vc an e now req res = (req1, res1, oc)"
    by (cases "privacyMiddleware vc an e now req res") auto
  from assms(2) pm obtain ctx where ctx: "privacyCtx req1 = Some ctx" "\<not> consentValid ctx"
    by auto
  have pth: "path req1 = path req"
    using privacyMiddleware_path[of vc an e now req res] pm by simp
  have ne: "oc \<noteq> Ended"
    using privacyMiddleware_not_Ended[of vc an e now req res] pm by simp
  have enh: "enhancedPrivacyMiddleware vc an e now now2 req res =
      (case oc of
         NextError err \<Rightarrow> (req1, res1, NextError err)
       | _ \<Rightarrow> (req1, res1\<lparr>statusCode := 403, jsonBody := Some (healthConsentRequired now2)\<rparr>,
                Ended))"
    using ne assms(1) ctx pth
    by (cases oc) (simp_all add: enhancedPrivacyMiddleware_def pm)
  have bd: "body req1 =
       (case body req of
          None \<Rightarrow> None
        | Some b \<Rightarrow>
            Some (if e ''ANONYMIZATION_ENABLED'' = Some ''true''
                  then (case an (minimizedBody e req b) (path req) of
                          Inr b' \<Rightarrow> b' | Inl err \<Rightarrow> minimizedBody e req b)
                  else minimizedBody e req b))"
    using pm unfolding privacyMiddleware_eq Let_def
    by (cases "body req"; cases "e ''ANONYMIZATION_ENABLED'' = Some ''true''")
       (auto split: sum.splits)
  show ?thesis
    using ne bd
    by (cases oc) (simp_all add: Let_def pm enh routerUse_def)
qed

theorem health_consent_gate_witness:
  "str_includes ''/health-assessment'' ''/health''
   \<and> routerUse (enhancedPrivacyMiddleware (\<lambda>tok. True) (\<lambda>b p. Inr b) Map.empty ''t0'' ''t1'')
        (\<lambda>req res. ())
        \<lparr>path = ''/health-assessment'', ip = None, headers = Map.empty, cookies = None,
         body = None, privacyCtx = None\<rparr>
        \<lparr>headersOut = Map.empty, statusCode = 200, jsonBody = None\<rparr>
     = Rejected ((fst (snd (privacyMiddleware (\<lambda>tok. True) (\<lambda>b p. Inr b) Map.empty ''t0''
          \<lparr>path = ''/health-assessment'', ip = None, headers = Map.empty, cookies = None,
           body = None, privacyCtx = None\<rparr>
          \<lparr>headersOut = Map.empty, statusCode = 200, jsonBody = None\<rparr>)))
         \<lparr>statusCode := 403, jsonBody := Some (healthConsentRequired ''t1'')\<rparr>)"
proof -
  let ?req = "\<lparr>path = ''/health-assessment'', ip = None, headers = Map.empty, cookies = None,
         body = None, privacyCtx = None\<rparr>"
  let ?res = "\<lparr>headersOut = Map.empty, statusCode = 200, jsonBody = None\<rparr>"
  have h1: "str_includes ''/health-assessment'' ''/health''" by code_simp
  then have h1': "str_includes (path ?req) ''/health'' \<or> str_includes (path ?req) ''/medical''"
    by simp
  have h2: "\<exists>ctx. privacyCtx (fst (privacyMiddleware (\<lambda>tok. True) (\<lambda>b p. Inr b) Map.empty ''t0''
                ?req ?res)) = Some ctx \<and> \<not> consentValid ctx"
    unfolding privacyMiddleware_ctx
    by (simp add: consentToken_def js_or_def truthyStr_def newPrivacyContext_def)
  have oc: "snd (snd (privacyMiddleware (\<lambda>tok. True) (\<lambda>b p. Inr b) Map.empty ''t0'' ?req ?res)) = Next"
    unfolding privacyMiddleware_eq by (simp add: Let_def)
  show ?thesis
    using h1 health_consent_gate[OF h1' h2, of "''t1''" "\<lambda>req res. ()"] oc
    by (simp add: Let_def)
qed


section \<open>Properties of prompt anonymization\<close>

lemma anonymizePrompt_cases:
  "anonymizePrompt an p pc = p \<or> (\<exists>opts. an p opts = Inr (anonymizePrompt an p pc))"
  unfolding anonymizePrompt_def Let_def
  by (auto split: sum.splits)

lemma anonymizePrompt_spec_idempotent:
  "anonymizePrompt (anonymizeData r) (anonymizePrompt (anonymizeData r) payload pc) pc
     = anonymizePrompt (anonymizeData r) payload pc"
  unfolding anonymizePrompt_def Let_def anonymizeData_def
  by simp

lemma anonymizePrompt_low: "anonymizePrompt an p (pc\<lparr>anonymizationLevel := Some ''low''\<rparr>) = p"
  unfolding anonymizePrompt_def Let_def js_or_def truthyStr_def
  by simp

text \<open>
  C7: at each of the levels low, medium and high, anonymizing an anonymized payload again
  at the same level changes nothing, and at level low the payload is returned as it is,
  whatever the anonymizer.
\<close>

theorem anonymizePrompt_idempotent:
  "anonymizePrompt (anonymizeData r)
       (anonymizePrompt (anonymizeData r) payload (pc\<lparr>anonymizationLevel := Some ''low''\<rparr>))
       (pc\<lparr>anonymizationLevel := Some ''low''\<rparr>)
     = anonymizePrompt (anonymizeData r) payload (pc\<lparr>anonymizationLevel := Some ''low''\<rparr>)
   \<and> anonymizePrompt (anonymizeData r)
       (anonymizePrompt (anonymizeData r) payload (pc\<lparr>anonymizationLevel := Some ''medium''\<rparr>))
       (pc\<lparr>anonymizationLevel := Some ''medium''\<rparr>)
     = anonymizePrompt (anonymizeData r) payload (pc\<lparr>anonymizationLevel := Some ''medium''\<rparr>)
   \<and> anonymizePrompt (anonymizeData r)
       (anonymizePrompt (anonymizeData r) payload (pc\<lparr>anonymizationLevel := Some ''high''\<rparr>))
       (pc\<lparr>anonymizationLevel := Some ''high''\<rparr>)
     = anonymizePrompt (anonymizeData r) payload (pc\<lparr>anonymizationLevel := Some ''high''\<rparr>)
   \<and> anonymizePrompt an p (pc\<lparr>anonymizationLevel := Some ''low''\<rparr>) = p"
  by (simp only: anonymizePrompt_spec_idempotent anonymizePrompt_low)

text \<open>
  The levels differ: with a recogniser for names and one for locations, medium strips the
  name and high strips the location as well.
\<close>

lemma anonymizePrompt_levels_example:
  "anonymizePrompt
      (anonymizeData \<lparr>isName = (\<lambda>t. t = ''Ana''), isLocation = (\<lambda>t. t = ''Madrid''),
                      isDate = (\<lambda>t. False), isPersonalInfo = (\<lambda>t. False)\<rparr>)
      [''Ana'', ''vive'', ''en'', ''Madrid'']
      \<lparr>timestamp = [], ipAddress = None, userAgent = None, consentValid = False,
       dataMinimization = False, anonymization = True, gdprCompliance = False,
       lopdgddCompliance = False, anonymizationLevel = Some ''medium'',
       includeHealthData = False\<rparr>
     = [''vive'', ''en'', ''Madrid'']
   \<and> anonymizePrompt
      (anonymizeData \<lparr>isName = (\<lambda>t. t = ''Ana''), isLocation = (\<lambda>t. t = ''Madrid''),
                      isDate = (\<lambda>t. False), isPersonalInfo = (\<lambda>t. False)\<rparr>)
      [''Ana'', ''vive'', ''en'', ''Madrid'']
      \<lparr>timestamp = [], ipAddress = None, userAgent = None, consentValid = False,
       dataMinimization = False, anonymization = True, gdprCompliance = False,
       lopdgddCompliance = False, anonymizationLevel = Some ''high'',
       includeHealthData = False\<rparr>
     = [''vive'', ''en'']"
  by code_simp







section \<open>Properties of the providers\<close>

lemma firstMatch_in_table: "firstMatch lp tbl = Some r \<Longrightarrow> r \<in> snd ` set tbl"
  by (induction tbl) (auto split: if_splits)

lemma fallback_texts_nonempty: "r \<in> snd ` set fallbackResponses \<Longrightarrow> r \<noteq> []"
  unfolding fallbackResponses_def by auto

lemma defaultFallbackText_nonempty: "defaultFallbackText \<noteq> []"
  unfolding defaultFallbackText_def by simp

lemma getFallbackResponse_props:
  "success (getFallbackResponse ext p c) \<and> response (getFallbackResponse ext p c) \<noteq> []
   \<and> (r_model (getFallbackResponse ext p c) = ''fallback-rule-based''
        \<or> r_model (getFallbackResponse ext p c) = ''fallback-default'')"
proof (cases "firstMatch (toLowerCase ext p) fallbackResponses")
  case None
  then show ?thesis
    by (simp add: getFallbackResponse_def defaultFallbackText_nonempty)
next
  case (Some r)
  then have "r \<noteq> []"
    using firstMatch_in_table fallback_texts_nonempty by blast
  then show ?thesis
    using Some by (simp add: getFallbackResponse_def)
qed

text \<open>The local provider always answers, and never with an empty text.\<close>

lemma generateResponse_props:
  "success (generateResponse l ext p c pc) \<and> response (generateResponse l ext p c pc) \<noteq> []
   \<and> (r_model (generateResponse l ext p c pc) = model l
        \<or> r_model (generateResponse l ext p c pc) = ''fallback-rule-based''
        \<or> r_model (generateResponse l ext p c pc) = ''fallback-default'')"
  using getFallbackResponse_props[of ext p c]
  unfolding generateResponse_def Let_def
  by (auto simp: truthyStr_def split: sum.splits option.splits)

lemma generateOpenAIResponse_fails: "\<exists>err. generateOpenAIResponse svc ext p c pc = Inl err"
  unfolding generateOpenAIResponse_def by (auto split: sum.splits)

lemma generateLLMResponse_local:
  "useLocalLLM svc \<Longrightarrow> localLLM svc = Some l \<Longrightarrow>
     generateLLMResponse svc ext p c pc = Inr (generateResponse l ext p c pc)"
  unfolding generateLLMResponse_def by simp

lemma generateLLMResponse_success:
  assumes "generateLLMResponse svc ext p c pc = Inr r"
  shows "success r \<and> response r \<noteq> []"
proof -
  obtain err where "generateOpenAIResponse svc ext p c pc = Inl err"
    using generateOpenAIResponse_fails by blast
  then have "\<exists>l. r = generateResponse l ext p c pc"
    using assms unfolding generateLLMResponse_def
    by (auto split: if_splits option.splits)
  then show ?thesis using generateResponse_props by blast
qed

lemma openaiModeService_fields:
  "useLocalLLM openaiModeService = False \<and> localLLM openaiModeService = None"
  unfolding openaiModeService_def newChatbotService_def truthyStr_def by simp

lemma localModeService_fields:
  "useLocalLLM localModeService
   \<and> localLLM localModeService = Some (newLocalLLMService Map.empty (\<lambda>s. None) (\<lambda>s. None))"
  unfolding localModeService_def newChatbotService_def truthyStr_def by simp

text \<open>
  C3: in OpenAI mode the failure of the primary provider is surfaced. The constructor
  creates the local service only in local mode, so the fallback in the \<^verbatim>\<open>catch\<close> of
  generateLLMResponse finds \<^verbatim>\<open>this.localLLM\<close> undefined and throws again;
  getPersonalizedAdvice then throws its own error, for every query, context and
  collaborator: the rule-based responder is never reached.
\<close>

theorem openai_mode_failure_is_surfaced:
  "(\<exists>err. generateLLMResponse openaiModeService ext prompt c pc = Inl err)
   \<and> getPersonalizedAdvice openaiModeService ext query c pc
       = Inl (Error ''Failed to generate personalized advice'')"
proof -
  obtain err where e: "generateOpenAIResponse openaiModeService ext prompt c pc = Inl err"
    using generateOpenAIResponse_fails by blast
  have 1: "generateLLMResponse openaiModeService ext prompt c pc = Inl err"
    unfolding generateLLMResponse_def by (simp add: openaiModeService_fields e)
  obtain err' where e': "generateOpenAIResponse openaiModeService ext
       (buildAdvicePrompt query c []) c pc = Inl err'"
    using generateOpenAIResponse_fails by blast
  have 2: "generateLLMResponse openaiModeService ext (buildAdvicePrompt query c []) c pc = Inl err'"
    unfolding generateLLMResponse_def by (simp add: openaiModeService_fields e')
  show ?thesis using 1 2 by (simp add: getPersonalizedAdvice_def)
qed

text \<open>
  In local mode the same request always succeeds, with the model of the local server or
  one of the two names of the rule-based responder.
\<close>

lemma local_mode_advice_succeeds:
  "\<exists>r. getPersonalizedAdvice localModeService ext query c pc = Inr r
       \<and> advice r \<noteq> []
       \<and> (adv_model r = model (newLocalLLMService Map.empty (\<lambda>s. None) (\<lambda>s. None))
            \<or> adv_model r = ''fallback-rule-based'' \<or> adv_model r = ''fallback-default'')"
  using generateResponse_props[of "newLocalLLMService Map.empty (\<lambda>s. None) (\<lambda>s. None)" ext
          "buildAdvicePrompt query c []" c pc]
  by (simp add: getPersonalizedAdvice_def
        generateLLMResponse_local[OF conjunct1[OF localModeService_fields]
                                     conjunct2[OF localModeService_fields]])

section \<open>Properties of the assessment operations\<close>

lemma rethrow_Inl [simp]: "rethrow msg (s, Inl err) = (s, Inl (Error msg))"
  by (simp add: rethrow_def)

lemma rethrow_Inr [simp]: "rethrow msg (s, Inr v) = (s, Inr v)"
  by (simp add: rethrow_def)

lemma answersOf_update [simp]:
  "answersOf (a\<lparr>answers := Some (encryptData as)\<rparr>) = as"
  by (simp add: answersOf_def encryptData_def)

text \<open>processAnswer on a pair without a matching row.\<close>

lemma processAnswer_not_found:
  "findOne st aid uid = None \<Longrightarrow>
     processAnswer svc ext now st uid aid qid ans conf pc
       = (st, Inl (Error ''Failed to process answer''))"
  by (simp add: processAnswer_def processAnswer_try_def)

text \<open>processAnswer on a matching row, when the list is not yet full after the push.\<close>

lemma processAnswer_next:
  assumes "findOne st aid uid = Some a"
    and "length (answersOf a) + 1 < totalQuestions a"
  shows "processAnswer svc ext now st uid aid qid ans conf pc =
     (let as = answersOf a @ [\<lparr>questionId = qid, answer = ans, confidence = conf, answeredAt = now\<rparr>];
          prog = round ((of_nat (length as) / of_nat (totalQuestions a)) * (100 :: rat))
      in case generateAssessmentQuestion svc ext (length as + 1) (decryptData (healthData a)) as pc of
           Inl err \<Rightarrow> (st, Inl (Error ''Failed to process answer''))
         | Inr q \<Rightarrow>
             (st(aid \<mapsto> a\<lparr>currentQuestion := QNum (length as + 1),
                            answers := Some (encryptData as),
                            progress := prog,
                            nextQuestion := Some q\<rparr>),
              Inr \<lparr>ar_status = status a, ar_nextQuestion = Some q, ar_recommendations = None,
                   ar_progress = prog,
                   ar_estimatedCompletion =
                     Some (calculateEstimatedCompletion (totalQuestions a))\<rparr>))"
  using assms
  unfolding processAnswer_def processAnswer_try_def
  by (simp only: Let_def) (simp split: sum.splits)

text \<open>processAnswer on a matching row, when the push fills the list (or it was full).\<close>

lemma processAnswer_final:
  assumes "findOne st aid uid = Some a"
    and "totalQuestions a \<le> length (answersOf a) + 1"
  shows "processAnswer svc ext now st uid aid qid ans conf pc =
     (let as = answersOf a @ [\<lparr>questionId = qid, answer = ans, confidence = conf, answeredAt = now\<rparr>]
      in case generateFinalRecommendations svc ext (decryptData (healthData a)) as pc of
           Inl err \<Rightarrow> (st, Inl (Error ''Failed to process answer''))
         | Inr recs \<Rightarrow>
             (st(aid \<mapsto> a\<lparr>status := ''completed'',
                            progress := 100,
                            answers := Some (encryptData as),
                            recommendations := Some (encryptData recs),
                            completedAt := Some now\<rparr>),
              Inr \<lparr>ar_status = ''completed'', ar_nextQuestion = None,
                   ar_recommendations = Some recs, ar_progress = 100,
                   ar_estimatedCompletion = None\<rparr>))"
  using assms
  unfolding processAnswer_def processAnswer_try_def
  by (simp only: Let_def) (simp split: sum.splits)

lemma processAnswer_failure_keeps_store:
  assumes "snd (processAnswer svc ext now st uid aid qid ans conf pc) = Inl err"
  shows "processAnswer svc ext now st uid aid qid ans conf pc
           = (st, Inl (Error ''Failed to process answer''))"
proof (cases "findOne st aid uid")
  case None
  then show ?thesis by (rule processAnswer_not_found)
next
  case (Some a)
  show ?thesis
  proof (cases "length (answersOf a) + 1 < totalQuestions a")
    case True
    show ?thesis
      using assms unfolding processAnswer_next[OF Some True] Let_def
      by (auto split: sum.splits)
  next
    case False
    then have f: "totalQuestions a \<le> length (answersOf a) + 1" by simp
    show ?thesis
      using assms unfolding processAnswer_final[OF Some f] Let_def
      by (auto split: sum.splits)
  qed
qed

lemma generateAssessmentQuestion_nonempty:
  "generateAssessmentQuestion svc ext n hdata as pc = Inr q \<Longrightarrow> q \<noteq> []"
  unfolding generateAssessmentQuestion_def
  by (auto split: sum.splits dest: generateLLMResponse_success)

lemma generateFinalRecommendations_nonempty:
  "generateFinalRecommendations svc ext hdata as pc = Inr recs \<Longrightarrow> recs \<noteq> []"
  unfolding generateFinalRecommendations_def
  by (auto split: sum.splits dest: generateLLMResponse_success)

text \<open>In local mode processAnswer returns for every matching row.\<close>

lemma processAnswer_local_returns:
  assumes "useLocalLLM svc" and "localLLM svc = Some l" and f: "findOne st aid uid = Some a"
  shows "\<exists>r. snd (processAnswer svc ext now st uid aid qid ans conf pc) = Inr r"
proof (cases "length (answersOf a) + 1 < totalQuestions a")
  case True
  show ?thesis
    unfolding processAnswer_next[OF f True] Let_def generateAssessmentQuestion_def
      generateLLMResponse_local[OF assms(1,2)]
    by simp
next
  case False
  then have fin: "totalQuestions a \<le> length (answersOf a) + 1" by simp
  show ?thesis
    unfolding processAnswer_final[OF f fin] Let_def generateFinalRecommendations_def
      generateLLMResponse_local[OF assms(1,2)]
    by simp
qed

text \<open>What startHealthAssessment leaves in the store.\<close>

lemma startHealthAssessment_cases:
  "(fst (startHealthAssessment svc ext newId now st uid hdata pc) = st
      \<and> (\<exists>err. snd (startHealthAssessment svc ext newId now st uid hdata pc) = Inl err))
   \<or> (\<exists>anonymized. st newId = None
        \<and> fst (startHealthAssessment svc ext newId now st uid hdata pc)
            = st(newId \<mapsto> createdRow uid now hdata anonymized)
        \<and> (\<exists>err. snd (startHealthAssessment svc ext newId now st uid hdata pc) = Inl err))
   \<or> (\<exists>anonymized q. st newId = None
        \<and> fst (startHealthAssessment svc ext newId now st uid hdata pc)
            = st(newId \<mapsto> (createdRow uid now hdata anonymized)
                               \<lparr>currentQuestion := QText q, nextQuestion := Some q\<rparr>)
        \<and> snd (startHealthAssessment svc ext newId now st uid hdata pc)
            = Inr \<lparr>sr_id = newId, sr_status = ''in_progress'', sr_nextQuestion = q,
                   sr_progress = 0, sr_estimatedCompletion = 30\<rparr>)"
  unfolding startHealthAssessment_def startHealthAssessment_try_def createdRow_def
  by (simp only: Let_def)
     (auto split: sum.splits option.splits simp: calculateEstimatedCompletion_def)

lemma round_percent:
  assumes "n \<le> (15::nat)"
  shows "0 \<le> round (100 * of_nat n / of_nat 15 :: rat)
         \<and> round (100 * of_nat n / of_nat 15 :: rat) \<le> 100"
proof -
  have "(0::rat) \<le> 100 * of_nat n / of_nat 15" by simp
  then have "round (0::rat) \<le> round (100 * of_nat n / of_nat 15 :: rat)"
    by (rule round_mono)
  moreover have "(100 * of_nat n / of_nat 15 :: rat) \<le> 100"
    using assms by simp
  then have "round (100 * of_nat n / of_nat 15 :: rat) \<le> round (100::rat)"
    by (rule round_mono)
  ultimately show ?thesis by simp
qed

lemma createdRow_inv: "assessmentInv (createdRow uid now hdata anonymized)"
  unfolding assessmentInv_def createdRow_def answersOf_def by simp

lemma createdRow_inv':
  "assessmentInv ((createdRow uid now hdata anonymized)
                     \<lparr>currentQuestion := QText q, nextQuestion := Some q\<rparr>)"
  unfolding assessmentInv_def createdRow_def answersOf_def by simp


lemma findOne_SomeD: "findOne st aid uid = Some a \<Longrightarrow> st aid = Some a \<and> userId a = uid"
  by (auto simp: findOne_def split: option.splits if_splits)

lemma findOne_SomeI: "st aid = Some a \<Longrightarrow> userId a = uid \<Longrightarrow> findOne st aid uid = Some a"
  by (simp add: findOne_def)

lemma percent_commute:
  "(of_nat n / of_nat m) * (100 :: rat) = 100 * of_nat n / of_nat m"
  by simp

text \<open>One call of processAnswer keeps the invariant of the row it writes.\<close>

lemma processAnswer_inv:
  assumes f: "findOne st aid uid = Some a" and inv: "assessmentInv a"
  shows "fst (processAnswer svc ext now st uid aid qid ans conf pc) = st
         \<or> (\<exists>a'. fst (processAnswer svc ext now st uid aid qid ans conf pc) = st(aid \<mapsto> a')
                  \<and> assessmentInv a')"
proof (cases "length (answersOf a) + 1 < totalQuestions a")
  case True
  let ?as = "answersOf a @ [\<lparr>questionId = qid, answer = ans, confidence = conf, answeredAt = now\<rparr>]"
  have tot: "totalQuestions a = 15" using inv by (simp add: assessmentInv_def)
  have st: "status a = ''in_progress''"
    using inv True unfolding assessmentInv_def by (auto split: if_splits)
  have len: "length ?as \<le> 15" using True tot by simp
  show ?thesis
  proof (cases "generateAssessmentQuestion svc ext (length ?as + 1) (decryptData (healthData a)) ?as pc")
    case (Inl err)
    then show ?thesis
      unfolding processAnswer_next[OF f True] Let_def by simp
  next
    case (Inr q)
    let ?a' = "a\<lparr>currentQuestion := QNum (length ?as + 1),
                 answers := Some (encryptData ?as),
                 progress := round ((of_nat (length ?as) / of_nat (totalQuestions a)) * (100 :: rat)),
                 nextQuestion := Some q\<rparr>"
    have "assessmentInv ?a'"
      using round_percent[OF len] True tot st
      unfolding assessmentInv_def percent_commute
      by (simp add: answersOf_def encryptData_def)
    moreover have "fst (processAnswer svc ext now st uid aid qid ans conf pc) = st(aid \<mapsto> ?a')"
      unfolding processAnswer_next[OF f True] Let_def using Inr by simp
    ultimately show ?thesis by blast
  qed
next
  case False
  then have fin: "totalQuestions a \<le> length (answersOf a) + 1" by simp
  let ?as = "answersOf a @ [\<lparr>questionId = qid, answer = ans, confidence = conf, answeredAt = now\<rparr>]"
  have tot: "totalQuestions a = 15" using inv by (simp add: assessmentInv_def)
  show ?thesis
  proof (cases "generateFinalRecommendations svc ext (decryptData (healthData a)) ?as pc")
    case (Inl err)
    then show ?thesis
      unfolding processAnswer_final[OF f fin] Let_def by simp
  next
    case (Inr recs)
    let ?a' = "a\<lparr>status := ''completed'', progress := 100,
                 answers := Some (encryptData ?as),
                 recommendations := Some (encryptData recs),
                 completedAt := Some now\<rparr>"
    have "assessmentInv ?a'"
      using fin tot unfolding assessmentInv_def
      by (simp add: answersOf_def encryptData_def)
    moreover have "fst (processAnswer svc ext now st uid aid qid ans conf pc) = st(aid \<mapsto> ?a')"
      unfolding processAnswer_final[OF f fin] Let_def using Inr by simp
    ultimately show ?thesis by blast
  qed
qed

lemma deleteAssessment_cases:
  "fst (deleteAssessment st uid aid) = st \<or> fst (deleteAssessment st uid aid) = st(aid := None)"
  unfolding deleteAssessment_def deleteAssessment_try_def
  by (auto split: option.splits)

lemma reachable_inv:
  assumes "reachable st"
  shows "\<forall>aid a. st aid = Some a \<longrightarrow> assessmentInv a"
  using assms
proof (induction rule: reachable.induct)
  case r_empty
  show ?case by simp
next
  case (r_start st svc ext newId now uid hdata pc)
  show ?case
    using startHealthAssessment_cases[of svc ext newId now st uid hdata pc] r_start.IH
    by (auto simp: createdRow_inv createdRow_inv' split: if_splits)
next
  case (r_answer st svc ext now uid assessmentId qid ans conf pc)
  show ?case
  proof (cases "findOne st assessmentId uid")
    case None
    then show ?thesis
      using r_answer.IH by (simp add: processAnswer_not_found)
  next
    case (Some a)
    then have "assessmentInv a"
      using r_answer.IH findOne_SomeD by blast
    from processAnswer_inv[OF Some this, of svc ext now qid ans conf pc]
    show ?thesis
      using r_answer.IH by (auto split: if_splits)
  qed
next
  case (r_delete st uid assessmentId)
  show ?case
    using deleteAssessment_cases[of st uid assessmentId] r_delete.IH
    by (auto split: if_splits)
qed

text \<open>
  When calls do not overlap, the update of processAnswer is applied to the row that the
  call has read.
\<close>

lemma processAnswer_next_write:
  assumes "findOne st aid uid = Some a"
    and "length (answersOf a) + 1 < totalQuestions a"
    and "snd (processAnswer svc ext now st uid aid qid ans conf pc) = Inr r"
  shows "\<exists>q. fst (processAnswer svc ext now st uid aid qid ans conf pc)
              = st(aid \<mapsto> nextQuestionWrite a qid ans conf now q a)"
  using assms(3)
  unfolding processAnswer_next[OF assms(1,2)] nextQuestionWrite_def Let_def
  by (auto split: sum.splits)

text \<open>
  Why the invariant is stated for calls that run one after another. A call reads the
  assessment when it has 13 answers and awaits the provider; meanwhile two other calls
  run to their end and complete the assessment; then the update of the first call
  arrives. The stored row is completed, with 14 answers and progress 93.
\<close>

lemma overlapping_update_breaks_invariant:
  "(case (fst (processAnswers localModeService answeringExternals
                (fst (startHealthAssessment localModeService answeringExternals ''a1'' ''t0''
                        Map.empty ''u1'' [(''age'', JNum 30)] plainContext))
                ''u1'' ''a1'' plainContext (replicate 13 (''q1'', ''si'', None, ''t1''))) ''a1'',
          fst (processAnswers localModeService answeringExternals
                (fst (startHealthAssessment localModeService answeringExternals ''a1'' ''t0''
                        Map.empty ''u1'' [(''age'', JNum 30)] plainContext))
                ''u1'' ''a1'' plainContext (replicate 15 (''q1'', ''si'', None, ''t1''))) ''a1'') of
      (Some a13, Some a15) \<Rightarrow>
        length (answersOf a13) = 13 \<and> status a15 = ''completed''
        \<and> status (nextQuestionWrite a13 ''q14'' ''si'' None ''t9'' ''ok'' a15) = ''completed''
        \<and> progress (nextQuestionWrite a13 ''q14'' ''si'' None ''t9'' ''ok'' a15) = 93
        \<and> length (answersOf (nextQuestionWrite a13 ''q14'' ''si'' None ''t9'' ''ok'' a15)) = 14
        \<and> \<not> assessmentInv (nextQuestionWrite a13 ''q14'' ''si'' None ''t9'' ''ok'' a15)
    | _ \<Rightarrow> False)"
  by code_simp

text \<open>
  C6, the claim as stated fails: processAnswer does not look at the status, so a
  completed assessment accepts a further answer. After sixteen answers the list is longer
  than the total of 15, and the stored progress is 100, not the rounded quotient 107.
\<close>

theorem answers_can_exceed_total:
  "(case fst (processAnswers localModeService answeringExternals
               (fst (startHealthAssessment localModeService answeringExternals ''a1'' ''t0''
                       Map.empty ''u1'' [(''age'', JNum 30)] plainContext))
               ''u1'' ''a1'' plainContext (replicate 16 (''q1'', ''si'', None, ''t1''))) ''a1'' of
      Some a \<Rightarrow> length (answersOf a) = 16 \<and> totalQuestions a = 15 \<and> progress a = 100
                \<and> status a = ''completed''
                \<and> round (100 * of_nat (length (answersOf a)) / of_nat (totalQuestions a) :: rat)
                     = 107
    | None \<Rightarrow> False)"
  by code_simp

text \<open>
  C6, amended: in every state of the store that calls of the service produce when they
  run one after another (no request overlapping another), every assessment has a total of
  15 questions and a progress between 0 and 100; while its status is in_progress it has
  fewer answers than the total and its progress is
  round(100 * len(answers) / totalQuestions); otherwise its status is completed, it has
  at least as many answers as the total, and its progress is 100.
\<close>

theorem reachable_progress_invariant:
  assumes "reachable st" and "st aid = Some a"
  shows "0 \<le> progress a \<and> progress a \<le> 100 \<and> totalQuestions a = 15
         \<and> (status a = ''in_progress'' \<longrightarrow>
               length (answersOf a) < totalQuestions a
               \<and> progress a = round (100 * of_nat (length (answersOf a))
                                        / of_nat (totalQuestions a) :: rat))
         \<and> (status a \<noteq> ''in_progress'' \<longrightarrow>
               status a = ''completed'' \<and> totalQuestions a \<le> length (answersOf a)
               \<and> progress a = 100)"
proof -
  have "assessmentInv a" using reachable_inv[OF assms(1)] assms(2) by blast
  then show ?thesis unfolding assessmentInv_def by (auto split: if_splits)
qed

theorem reachable_progress_invariant_witness:
  "reachable (fst (processAnswer localModeService answeringExternals ''t1''
        (fst (startHealthAssessment localModeService answeringExternals ''a1'' ''t0''
                Map.empty ''u1'' [(''age'', JNum 30)] plainContext))
        ''u1'' ''a1'' ''q1'' ''si'' None plainContext))
   \<and> (\<exists>a. fst (processAnswer localModeService answeringExternals ''t1''
        (fst (startHealthAssessment localModeService answeringExternals ''a1'' ''t0''
                Map.empty ''u1'' [(''age'', JNum 30)] plainContext))
        ''u1'' ''a1'' ''q1'' ''si'' None plainContext) ''a1'' = Some a
        \<and> status a = ''in_progress'' \<and> length (answersOf a) = 1
        \<and> progress a = 7
        \<and> progress a = round (100 * of_nat (length (answersOf a))
                                / of_nat (totalQuestions a) :: rat))"
proof -
  let ?st = "fst (processAnswer localModeService answeringExternals ''t1''
        (fst (startHealthAssessment localModeService answeringExternals ''a1'' ''t0''
                Map.empty ''u1'' [(''age'', JNum 30)] plainContext))
        ''u1'' ''a1'' ''q1'' ''si'' None plainContext)"
  have r: "reachable ?st"
    by (intro r_answer r_start r_empty)
  have e: "(case ?st ''a1'' of
              Some a \<Rightarrow> status a = ''in_progress'' \<and> length (answersOf a) = 1 \<and> progress a = 7
            | None \<Rightarrow> False)"
    by code_simp
  then obtain a where a: "?st ''a1'' = Some a" "status a = ''in_progress''"
      "length (answersOf a) = 1" "progress a = 7"
    by (auto split: option.splits)
  show ?thesis
    using r a reachable_progress_invariant[OF r a(1)] by auto
qed

text \<open>A run of answers that stays below the total keeps the assessment in progress.\<close>

lemma processAnswers_in_progress:
  assumes "st aid = Some a" and "userId a = uid" and "status a = ''in_progress''"
    and "totalQuestions a = 15"
    and "length (answersOf a) + length ins < 15"
    and "snd (processAnswers svc ext st uid aid pc ins) = Inr ()"
  shows "\<exists>a'. fst (processAnswers svc ext st uid aid pc ins) aid = Some a'
           \<and> userId a' = uid \<and> status a' = ''in_progress'' \<and> totalQuestions a' = 15
           \<and> length (answersOf a') = length (answersOf a) + length ins
           \<and> (ins \<noteq> [] \<longrightarrow>
                 progress a' = round (100 * of_nat (length (answersOf a')) / of_nat 15 :: rat))"
  using assms
proof (induction ins arbitrary: st a)
  case Nil
  then show ?case by simp
next
  case (Cons x rest)
  obtain qid ans conf now where x: "x = (qid, ans, conf, now)"
    by (cases x) auto
  have f: "findOne st aid uid = Some a"
    using Cons.prems(1,2) by (rule findOne_SomeI)
  have lt: "length (answersOf a) + 1 < totalQuestions a"
    using Cons.prems(4,5) by simp
  let ?as = "answersOf a @ [\<lparr>questionId = qid, answer = ans, confidence = conf, answeredAt = now\<rparr>]"
  show ?case
  proof (cases "generateAssessmentQuestion svc ext (length ?as + 1) (decryptData (healthData a)) ?as pc")
    case (Inl err)
    then have "snd (processAnswers svc ext st uid aid pc (x # rest)) = Inl (Error ''Failed to process answer'')"
      unfolding x by (simp add: processAnswer_next[OF f lt] Let_def)
    then show ?thesis using Cons.prems(6) by simp
  next
    case (Inr q)
    let ?a1 = "a\<lparr>currentQuestion := QNum (length ?as + 1),
                 answers := Some (encryptData ?as),
                 progress := round ((of_nat (length ?as) / of_nat (totalQuestions a)) * (100 :: rat)),
                 nextQuestion := Some q\<rparr>"
    let ?st1 = "st(aid \<mapsto> ?a1)"
    have step: "processAnswers svc ext st uid aid pc (x # rest)
                  = processAnswers svc ext ?st1 uid aid pc rest"
      unfolding x using Inr by (simp add: processAnswer_next[OF f lt] Let_def)
    have len1: "length (answersOf ?a1) = length (answersOf a) + 1"
      by (simp add: answersOf_def encryptData_def)
    have p1: "progress ?a1 = round (100 * of_nat (length (answersOf ?a1)) / of_nat 15 :: rat)"
      unfolding len1 using Cons.prems(4) by (simp add: percent_commute mult.commute)
    have "\<exists>a'. fst (processAnswers svc ext ?st1 uid aid pc rest) aid = Some a'
           \<and> userId a' = uid \<and> status a' = ''in_progress'' \<and> totalQuestions a' = 15
           \<and> length (answersOf a') = length (answersOf ?a1) + length rest
           \<and> (rest \<noteq> [] \<longrightarrow>
                 progress a' = round (100 * of_nat (length (answersOf a')) / of_nat 15 :: rat))"
    proof (rule Cons.IH)
      show "?st1 aid = Some ?a1" by simp
      show "userId ?a1 = uid" using Cons.prems(2) by simp
      show "status ?a1 = ''in_progress''" using Cons.prems(3) by simp
      show "totalQuestions ?a1 = 15" using Cons.prems(4) by simp
      show "length (answersOf ?a1) + length rest < 15"
        unfolding len1 using Cons.prems(5) by simp
      show "snd (processAnswers svc ext ?st1 uid aid pc rest) = Inr ()"
        using Cons.prems(6) unfolding step .
    qed
    then obtain a' where a': "fst (processAnswers svc ext ?st1 uid aid pc rest) aid = Some a'"
      "userId a' = uid" "status a' = ''in_progress''" "totalQuestions a' = 15"
      "length (answersOf a') = length (answersOf ?a1) + length rest"
      "rest \<noteq> [] \<longrightarrow>
         progress a' = round (100 * of_nat (length (answersOf a')) / of_nat 15 :: rat)"
      by blast
    have pr: "progress a' = round (100 * of_nat (length (answersOf a')) / of_nat 15 :: rat)"
    proof (cases rest)
      case Nil
      then have "a' = ?a1" using a'(1) by simp
      then show ?thesis using p1 by simp
    next
      case (Cons y ys)
      then show ?thesis using a'(6) by simp
    qed
    have l: "length (answersOf a') = length (answersOf a) + length (x # rest)"
      using a'(5) unfolding len1 by simp
    have g: "fst (processAnswers svc ext st uid aid pc (x # rest)) aid = Some a'"
      unfolding step by (rule a'(1))
    show ?thesis
      using g a'(2) a'(3) a'(4) l pr by blast
  qed
qed

lemma startHealthAssessment_success:
  assumes "snd (startHealthAssessment svc ext newId now st uid hdata pc) = Inr r0"
  shows "\<exists>a. fst (startHealthAssessment svc ext newId now st uid hdata pc) newId = Some a
           \<and> userId a = uid \<and> status a = ''in_progress'' \<and> totalQuestions a = 15
           \<and> answersOf a = [] \<and> progress a = 0 \<and> recommendations a = None
           \<and> sr_id r0 = newId \<and> sr_status r0 = ''in_progress'' \<and> sr_progress r0 = 0
           \<and> sr_nextQuestion r0 \<noteq> []"
proof -
  from startHealthAssessment_cases[of svc ext newId now st uid hdata pc] assms
  obtain anonymized q where c: "st newId = None"
    "fst (startHealthAssessment svc ext newId now st uid hdata pc)
       = st(newId \<mapsto> (createdRow uid now hdata anonymized)
                          \<lparr>currentQuestion := QText q, nextQuestion := Some q\<rparr>)"
    "snd (startHealthAssessment svc ext newId now st uid hdata pc)
       = Inr \<lparr>sr_id = newId, sr_status = ''in_progress'', sr_nextQuestion = q,
              sr_progress = 0, sr_estimatedCompletion = 30\<rparr>"
    by auto
  have q: "q \<noteq> []"
  proof -
    have "\<exists>an. generateAssessmentQuestion svc ext 1 an [] pc = Inr q"
      using c(1) c(3)
      unfolding startHealthAssessment_def startHealthAssessment_try_def
      by (simp only: Let_def) (auto split: sum.splits option.splits if_splits)
    then show ?thesis using generateAssessmentQuestion_nonempty by blast
  qed
  show ?thesis
    using c(3) assms q unfolding c(2)
    by (auto simp: createdRow_def answersOf_def)
qed

text \<open>
  C5: for an assessment that startHealthAssessment has started (with its fixed total of
  15 questions), after fourteen answers that were processed the stored status is
  in_progress and the progress is 93; when the fifteenth answer is processed the status
  becomes completed, the progress 100, and recommendations that are not empty are stored
  and returned.
\<close>

theorem fifteen_answers_complete:
  assumes "snd (startHealthAssessment svc ext newId now0 st uid hdata pc) = Inr r0"
    and "length ins = 14"
    and "snd (processAnswers svc ext (fst (startHealthAssessment svc ext newId now0 st uid hdata pc))
                uid newId pc ins) = Inr ()"
  shows "(\<exists>a. fst (processAnswers svc ext
                    (fst (startHealthAssessment svc ext newId now0 st uid hdata pc))
                    uid newId pc ins) newId = Some a
              \<and> totalQuestions a = 15 \<and> length (answersOf a) = 14
              \<and> status a = ''in_progress'' \<and> progress a = 93)
         \<and> (\<forall>qid ans conf now r.
               snd (processAnswer svc ext now
                      (fst (processAnswers svc ext
                             (fst (startHealthAssessment svc ext newId now0 st uid hdata pc))
                             uid newId pc ins))
                      uid newId qid ans conf pc) = Inr r
               \<longrightarrow> (\<exists>a recs.
                      fst (processAnswer svc ext now
                             (fst (processAnswers svc ext
                                    (fst (startHealthAssessment svc ext newId now0 st uid hdata pc))
                                    uid newId pc ins))
                             uid newId qid ans conf pc) newId = Some a
                      \<and> length (answersOf a) = 15
                      \<and> status a = ''completed'' \<and> progress a = 100
                      \<and> recommendations a = Some (encryptData recs) \<and> recs \<noteq> []
                      \<and> ar_status r = ''completed'' \<and> ar_progress r = 100
                      \<and> ar_recommendations r = Some recs))"
proof -
  let ?st0 = "fst (startHealthAssessment svc ext newId now0 st uid hdata pc)"
  let ?st14 = "fst (processAnswers svc ext ?st0 uid newId pc ins)"
  from startHealthAssessment_success[OF assms(1)]
  obtain a0 where a0: "?st0 newId = Some a0" "userId a0 = uid" "status a0 = ''in_progress''"
    "totalQuestions a0 = 15" "answersOf a0 = []"
    by blast
  have "\<exists>a'. ?st14 newId = Some a'
           \<and> userId a' = uid \<and> status a' = ''in_progress'' \<and> totalQuestions a' = 15
           \<and> length (answersOf a') = length (answersOf a0) + length ins
           \<and> (ins \<noteq> [] \<longrightarrow>
                 progress a' = round (100 * of_nat (length (answersOf a')) / of_nat 15 :: rat))"
    using a0 assms(2,3) by (intro processAnswers_in_progress) simp_all
  then obtain a where a: "?st14 newId = Some a" "userId a = uid" "status a = ''in_progress''"
    "totalQuestions a = 15" "length (answersOf a) = 14"
    "progress a = round (100 * of_nat 14 / of_nat 15 :: rat)"
    using a0(5) assms(2) by auto
  have "round (100 * of_nat 14 / of_nat 15 :: rat) = (93 :: int)"
    unfolding round_def by (rule floor_unique) simp_all
  then have p93: "progress a = 93" using a(6) by simp
  have f: "findOne ?st14 newId uid = Some a"
    using a(1,2) by (rule findOne_SomeI)
  have fin: "totalQuestions a \<le> length (answersOf a) + 1"
    using a(4,5) by simp
  have last: "\<exists>a' recs.
        fst (processAnswer svc ext now ?st14 uid newId qid ans conf pc) newId = Some a'
        \<and> length (answersOf a') = 15
        \<and> status a' = ''completed'' \<and> progress a' = 100
        \<and> recommendations a' = Some (encryptData recs) \<and> recs \<noteq> []
        \<and> ar_status r = ''completed'' \<and> ar_progress r = 100
        \<and> ar_recommendations r = Some recs"
    if ok: "snd (processAnswer svc ext now ?st14 uid newId qid ans conf pc) = Inr r"
    for qid ans conf now r
  proof -
    let ?as = "answersOf a @ [\<lparr>questionId = qid, answer = ans, confidence = conf, answeredAt = now\<rparr>]"
    from ok obtain recs where recs:
      "generateFinalRecommendations svc ext (decryptData (healthData a)) ?as pc = Inr recs"
      unfolding processAnswer_final[OF f fin] Let_def
      by (auto split: sum.splits)
    have ne: "recs \<noteq> []" using recs by (rule generateFinalRecommendations_nonempty)
    show ?thesis
      using ok ne a(5) unfolding processAnswer_final[OF f fin] Let_def recs
      by (auto simp: answersOf_def encryptData_def)
  qed
  show ?thesis
    using a(1,3,4,5) p93 last by blast
qed

theorem fifteen_answers_complete_witness:
  "length (replicate 14 (''q1'', ''si'', None :: rat option, ''t1'')) = 14
   \<and> (\<exists>a. fst (processAnswers localModeService answeringExternals
                    (fst (startHealthAssessment localModeService answeringExternals ''a1'' ''t0''
                            Map.empty ''u1'' [(''age'', JNum 30)] plainContext))
                    ''u1'' ''a1'' plainContext (replicate 14 (''q1'', ''si'', None, ''t1'')))
                ''a1'' = Some a
              \<and> status a = ''in_progress'' \<and> progress a = 93)
   \<and> (\<exists>a recs. fst (processAnswer localModeService answeringExternals ''t2''
                      (fst (processAnswers localModeService answeringExternals
                             (fst (startHealthAssessment localModeService answeringExternals
                                     ''a1'' ''t0'' Map.empty ''u1'' [(''age'', JNum 30)]
                                     plainContext))
                             ''u1'' ''a1'' plainContext
                             (replicate 14 (''q1'', ''si'', None, ''t1''))))
                      ''u1'' ''a1'' ''q15'' ''no'' None plainContext) ''a1'' = Some a
              \<and> status a = ''completed'' \<and> progress a = 100
              \<and> recommendations a = Some (encryptData recs) \<and> recs \<noteq> [])"
proof -
  let ?ins = "replicate 14 (''q1'', ''si'', None :: rat option, ''t1'')"
  let ?start = "startHealthAssessment localModeService answeringExternals ''a1'' ''t0''
                  Map.empty ''u1'' [(''age'', JNum 30)] plainContext"
  let ?st14 = "fst (processAnswers localModeService answeringExternals (fst ?start)
                 ''u1'' ''a1'' plainContext ?ins)"
  have h1: "\<exists>r0. snd ?start = Inr r0"
  proof -
    have "(case snd ?start of Inr r0 \<Rightarrow> True | Inl err \<Rightarrow> False)" by code_simp
    then show ?thesis by (auto split: sum.splits)
  qed
  then obtain r0 where r0: "snd ?start = Inr r0" by blast
  have h2: "length ?ins = 14" by simp
  have h3: "snd (processAnswers localModeService answeringExternals (fst ?start)
                  ''u1'' ''a1'' plainContext ?ins) = Inr ()"
    by code_simp
  have h4: "\<exists>r. snd (processAnswer localModeService answeringExternals ''t2'' ?st14
                       ''u1'' ''a1'' ''q15'' ''no'' None plainContext) = Inr r"
  proof -
    have "(case snd (processAnswer localModeService answeringExternals ''t2'' ?st14
                       ''u1'' ''a1'' ''q15'' ''no'' None plainContext) of
             Inr r \<Rightarrow> True | Inl err \<Rightarrow> False)"
      by code_simp
    then show ?thesis by (auto split: sum.splits)
  qed
  show ?thesis
    using h2 h4 fifteen_answers_complete[OF r0 h2 h3]
    by blast
qed

text \<open>
  C2, the claim as stated fails. In OpenAI mode the request for the next question fails;
  processAnswer then throws, and the store still holds the assessment without the
  answer: the push was made on the decrypted copy in memory, and the only update comes
  after the provider call. And a question id and answer that are submitted twice are
  appended twice (here in local mode, where the provider answers).
\<close>

theorem provider_failure_loses_answer:
  "snd (processAnswer openaiModeService offlineExternals ''t1''
          (fst (startHealthAssessment openaiModeService offlineExternals ''a1'' ''t0''
                  Map.empty ''u1'' [(''age'', JNum 30)] plainContext))
          ''u1'' ''a1'' ''q1'' ''si'' None plainContext)
     = Inl (Error ''Failed to process answer'')
   \<and> (case fst (processAnswer openaiModeService offlineExternals ''t1''
                  (fst (startHealthAssessment openaiModeService offlineExternals ''a1'' ''t0''
                          Map.empty ''u1'' [(''age'', JNum 30)] plainContext))
                  ''u1'' ''a1'' ''q1'' ''si'' None plainContext) ''a1'' of
         Some a \<Rightarrow> status a = ''in_progress'' \<and> answersOf a = []
       | None \<Rightarrow> False)
   \<and> (case fst (processAnswers localModeService answeringExternals
                  (fst (startHealthAssessment localModeService answeringExternals ''a1'' ''t0''
                          Map.empty ''u1'' [(''age'', JNum 30)] plainContext))
                  ''u1'' ''a1'' plainContext
                  [(''q1'', ''si'', None, ''t1''), (''q1'', ''si'', None, ''t2'')]) ''a1'' of
         Some a \<Rightarrow> map questionId (answersOf a) = [''q1'', ''q1'']
                   \<and> map answer (answersOf a) = [''si'', ''si'']
       | None \<Rightarrow> False)"
  by code_simp

text \<open>
  C2, amended: processAnswer writes to the store once, after the provider has answered.
  Whenever it throws, and in particular when the request for the next question or for
  the recommendations fails, the store is unchanged (the answer is not recorded) and the
  error is the one of its \<^verbatim>\<open>catch\<close> block. Whenever it returns, the stored answer list
  is the previous list with the new entry appended, whether or not the same question id
  and answer are already in the list: nothing is rejected as a duplicate.
\<close>

theorem processAnswer_writes_after_provider:
  "(\<forall>err. snd (processAnswer svc ext now st uid aid qid ans conf pc) = Inl err \<longrightarrow>
       processAnswer svc ext now st uid aid qid ans conf pc
         = (st, Inl (Error ''Failed to process answer'')))
   \<and> (\<forall>a err. findOne st aid uid = Some a
        \<and> (if totalQuestions a \<le> length (answersOf a) + 1
            then generateFinalRecommendations svc ext (decryptData (healthData a))
                   (answersOf a @ [\<lparr>questionId = qid, answer = ans, confidence = conf,
                                    answeredAt = now\<rparr>]) pc
            else generateAssessmentQuestion svc ext (length (answersOf a) + 2)
                   (decryptData (healthData a))
                   (answersOf a @ [\<lparr>questionId = qid, answer = ans, confidence = conf,
                                    answeredAt = now\<rparr>]) pc) = Inl err
        \<longrightarrow> processAnswer svc ext now st uid aid qid ans conf pc
              = (st, Inl (Error ''Failed to process answer'')))
   \<and> (\<forall>r. snd (processAnswer svc ext now st uid aid qid ans conf pc) = Inr r \<longrightarrow>
         (\<exists>a a'. findOne st aid uid = Some a
            \<and> fst (processAnswer svc ext now st uid aid qid ans conf pc) = st(aid \<mapsto> a')
            \<and> answersOf a' = answersOf a @ [\<lparr>questionId = qid, answer = ans,
                                              confidence = conf, answeredAt = now\<rparr>]))"
proof (intro conjI allI impI)
  fix err assume "snd (processAnswer svc ext now st uid aid qid ans conf pc) = Inl err"
  then show "processAnswer svc ext now st uid aid qid ans conf pc
         = (st, Inl (Error ''Failed to process answer''))"
    by (rule processAnswer_failure_keeps_store)
next
  fix a err
  let ?as = "answersOf a @ [\<lparr>questionId = qid, answer = ans, confidence = conf, answeredAt = now\<rparr>]"
  assume h: "findOne st aid uid = Some a
        \<and> (if totalQuestions a \<le> length (answersOf a) + 1
            then generateFinalRecommendations svc ext (decryptData (healthData a)) ?as pc
            else generateAssessmentQuestion svc ext (length (answersOf a) + 2)
                   (decryptData (healthData a)) ?as pc) = Inl err"
  then have f: "findOne st aid uid = Some a" by simp
  show "processAnswer svc ext now st uid aid qid ans conf pc
          = (st, Inl (Error ''Failed to process answer''))"
  proof (cases "length (answersOf a) + 1 < totalQuestions a")
    case True
    then show ?thesis
      using h unfolding processAnswer_next[OF f True] Let_def by simp
  next
    case False
    then have fin: "totalQuestions a \<le> length (answersOf a) + 1" by simp
    then show ?thesis
      using h unfolding processAnswer_final[OF f fin] Let_def by simp
  qed
next
  fix r assume ok: "snd (processAnswer svc ext now st uid aid qid ans conf pc) = Inr r"
  let ?e = "\<lparr>questionId = qid, answer = ans, confidence = conf, answeredAt = now\<rparr>"
  show "\<exists>a a'. findOne st aid uid = Some a
            \<and> fst (processAnswer svc ext now st uid aid qid ans conf pc) = st(aid \<mapsto> a')
            \<and> answersOf a' = answersOf a @ [?e]"
  proof (cases "findOne st aid uid")
    case None
    then show ?thesis using ok by (simp add: processAnswer_not_found)
  next
    case (Some a)
    show ?thesis
    proof (cases "length (answersOf a) + 1 < totalQuestions a")
      case True
      show ?thesis
        using ok Some unfolding processAnswer_next[OF Some True] Let_def
        by (auto split: sum.splits simp: answersOf_def encryptData_def)
    next
      case False
      then have fin: "totalQuestions a \<le> length (answersOf a) + 1" by simp
      show ?thesis
        using ok Some unfolding processAnswer_final[OF Some fin] Let_def
        by (auto split: sum.splits simp: answersOf_def encryptData_def)
    qed
  qed
qed

theorem processAnswer_writes_after_provider_witness:
  "snd (processAnswer openaiModeService offlineExternals ''t1''
          (fst (startHealthAssessment openaiModeService offlineExternals ''a1'' ''t0''
                  Map.empty ''u1'' [(''age'', JNum 30)] plainContext))
          ''u1'' ''a1'' ''q1'' ''si'' None plainContext)
     = Inl (Error ''Failed to process answer'')
   \<and> processAnswer openaiModeService offlineExternals ''t1''
          (fst (startHealthAssessment openaiModeService offlineExternals ''a1'' ''t0''
                  Map.empty ''u1'' [(''age'', JNum 30)] plainContext))
          ''u1'' ''a1'' ''q1'' ''si'' None plainContext
     = (fst (startHealthAssessment openaiModeService offlineExternals ''a1'' ''t0''
                  Map.empty ''u1'' [(''age'', JNum 30)] plainContext),
        Inl (Error ''Failed to process answer''))
   \<and> (\<exists>a a'. findOne (fst (startHealthAssessment localModeService answeringExternals ''a1'' ''t0''
                               Map.empty ''u1'' [(''age'', JNum 30)] plainContext))
                      ''a1'' ''u1'' = Some a
         \<and> fst (processAnswer localModeService answeringExternals ''t1''
                  (fst (startHealthAssessment localModeService answeringExternals ''a1'' ''t0''
                          Map.empty ''u1'' [(''age'', JNum 30)] plainContext))
                  ''u1'' ''a1'' ''q1'' ''si'' None plainContext)
             = (fst (startHealthAssessment localModeService answeringExternals ''a1'' ''t0''
                          Map.empty ''u1'' [(''age'', JNum 30)] plainContext))(''a1'' \<mapsto> a')
         \<and> answersOf a' = answersOf a @ [\<lparr>questionId = ''q1'', answer = ''si'',
                                           confidence = None, answeredAt = ''t1''\<rparr>])"
proof -
  let ?stO = "fst (startHealthAssessment openaiModeService offlineExternals ''a1'' ''t0''
                  Map.empty ''u1'' [(''age'', JNum 30)] plainContext)"
  let ?stL = "fst (startHealthAssessment localModeService answeringExternals ''a1'' ''t0''
                  Map.empty ''u1'' [(''age'', JNum 30)] plainContext)"
  have h1: "snd (processAnswer openaiModeService offlineExternals ''t1'' ?stO
                  ''u1'' ''a1'' ''q1'' ''si'' None plainContext)
             = Inl (Error ''Failed to process answer'')"
    by code_simp
  have h2: "\<exists>r. snd (processAnswer localModeService answeringExternals ''t1'' ?stL
                  ''u1'' ''a1'' ''q1'' ''si'' None plainContext) = Inr r"
  proof -
    have "(case snd (processAnswer localModeService answeringExternals ''t1'' ?stL
                  ''u1'' ''a1'' ''q1'' ''si'' None plainContext) of
             Inr r \<Rightarrow> True | Inl err \<Rightarrow> False)"
      by code_simp
    then show ?thesis by (auto split: sum.splits)
  qed
  show ?thesis
    using h1 h2
      processAnswer_writes_after_provider[of openaiModeService offlineExternals "''t1''" ?stO
        "''u1''" "''a1''" "''q1''" "''si''" None plainContext]
      processAnswer_writes_after_provider[of localModeService answeringExternals "''t1''" ?stL
        "''u1''" "''a1''" "''q1''" "''si''" None plainContext]
    by blast
qed

text \<open>
  C4: on a pair of id and owner that matches no stored assessment, the three operations
  throw the generic error of their \<^verbatim>\<open>catch\<close> blocks, which replaces the error
  "Assessment not found" thrown inside the \<^verbatim>\<open>try\<close>; the routes answer 500. The store
  holds the assessment \<open>a1\<close> of owner \<open>u1\<close>: processAnswer is called for owner \<open>u2\<close>,
  and getAssessment and a second deleteAssessment after \<open>u1\<close> has deleted \<open>a1\<close>.
\<close>

theorem not_found_is_reported_as_generic_failure:
  "snd (processAnswer localModeService answeringExternals ''t1''
          (fst (startHealthAssessment localModeService answeringExternals ''a1'' ''t0''
                  Map.empty ''u1'' [(''age'', JNum 30)] plainContext))
          ''u2'' ''a1'' ''q1'' ''si'' None plainContext)
     = Inl (Error ''Failed to process answer'')
   \<and> snd (deleteAssessment
            (fst (startHealthAssessment localModeService answeringExternals ''a1'' ''t0''
                    Map.empty ''u1'' [(''age'', JNum 30)] plainContext)) ''u1'' ''a1'')
     = Inr ''Assessment permanently deleted''
   \<and> snd (getAssessment
            (fst (deleteAssessment
                    (fst (startHealthAssessment localModeService answeringExternals ''a1'' ''t0''
                            Map.empty ''u1'' [(''age'', JNum 30)] plainContext)) ''u1'' ''a1''))
            ''u1'' ''a1'' plainContext)
     = Inl (Error ''Failed to retrieve assessment'')
   \<and> routeGetAssessment
            (fst (deleteAssessment
                    (fst (startHealthAssessment localModeService answeringExternals ''a1'' ''t0''
                            Map.empty ''u1'' [(''age'', JNum 30)] plainContext)) ''u1'' ''a1''))
            ''u1'' ''a1'' plainContext
     = (500, ''ASSESSMENT_RETRIEVAL_ERROR'')
   \<and> snd (deleteAssessment
            (fst (deleteAssessment
                    (fst (startHealthAssessment localModeService answeringExternals ''a1'' ''t0''
                            Map.empty ''u1'' [(''age'', JNum 30)] plainContext)) ''u1'' ''a1''))
            ''u1'' ''a1'')
     = Inl (Error ''Failed to delete assessment'')
   \<and> snd (routeDeleteAssessment
            (fst (deleteAssessment
                    (fst (startHealthAssessment localModeService answeringExternals ''a1'' ''t0''
                            Map.empty ''u1'' [(''age'', JNum 30)] plainContext)) ''u1'' ''a1''))
            ''u1'' ''a1'')
     = (500, ''ASSESSMENT_DELETION_ERROR'')"
  by code_simp

text \<open>The same for every store and every pair without a matching row.\<close>

lemma unmatched_pair_generic_failure:
  assumes "findOne st aid uid = None"
  shows "processAnswer svc ext now st uid aid qid ans conf pc
           = (st, Inl (Error ''Failed to process answer''))"
    and "getAssessment st uid aid pc = (st, Inl (Error ''Failed to retrieve assessment''))"
    and "deleteAssessment st uid aid = (st, Inl (Error ''Failed to delete assessment''))"
  using assms
  by (simp_all add: processAnswer_not_found getAssessment_def getAssessment_try_def
        deleteAssessment_def deleteAssessment_try_def)

lemma delete_then_unmatched:
  "findOne (fst (deleteAssessment st uid aid)) aid uid = None"
  unfolding deleteAssessment_def deleteAssessment_try_def findOne_def
  by (auto split: option.splits)

end
